theory Spec2Isabelle
  imports Complex_Main
begin

section \<open>The Koules demo: constants and state layout\<close>

text \<open>
  A shallow embedding of \<^verbatim>\<open>demos/Koules.cpp\<close>. C++ \<^verbatim>\<open>double\<close> values are modelled as
  real numbers, \<^verbatim>\<open>unsigned int\<close> counters as natural numbers. A state of the
  \<^verbatim>\<open>KoulesStateSpace\<close> is the flat vector produced by \<^verbatim>\<open>copyToReals\<close>:
  \<open>(\<dots> x\<^sub>i y\<^sub>i vx\<^sub>i vy\<^sub>i \<dots> x\<^sub>s y\<^sub>s vx\<^sub>s vy\<^sub>s theta\<^sub>s)\<close>, of length \<open>4 * numKoules + 5\<close>.
\<close>

type_synonym state = "real list"

type_synonym control = "real \<times> real"

definition sideLength :: real where
  "sideLength = 1"

definition kouleMass :: real where
  "kouleMass = 0.5"

definition kouleRadius :: real where
  "kouleRadius = 0.015"

definition shipAcceleration :: real where
  "shipAcceleration = 1"

definition shipRotVel :: real where
  "shipRotVel = pi"

definition shipMass :: real where
  "shipMass = 0.75"

definition shipRadius :: real where
  "shipRadius = 0.03"

definition shipVmax :: real where
  "shipVmax = 0.5 / shipAcceleration"

definition shipVmin :: real where
  "shipVmin = 0.1 * shipVmax"

definition lambda_c :: real where
  "lambda_c = 4"

definition h :: real where
  "h = 0.05"

definition integrationStepSize :: real where
  "integrationStepSize = 0.01"

definition propagationStepSize :: real where
  "propagationStepSize = 0.05"

definition propagationMinSteps :: nat where
  "propagationMinSteps = 1"

definition propagationMaxSteps :: nat where
  "propagationMaxSteps = 100"

definition shipDelta :: real where
  "shipDelta = 0.5 * shipAcceleration * propagationStepSize"

definition shipEps :: real where
  "shipEps = 0.5 * shipRotVel * propagationStepSize"

text \<open>The goal threshold (\<^verbatim>\<open>threshold_\<close>), set to 0.01 in the constructor of \<^verbatim>\<open>KoulesGoal\<close>.\<close>

definition threshold :: real where
  "threshold = 0.01"

text \<open>\<^verbatim>\<open>std::numeric_limits<float>::epsilon()\<close>, the gap between 1 and the next float.\<close>

definition float_epsilon :: real where
  "float_epsilon = 1 / 2 ^ 23"

text \<open>
  The C library's \<^verbatim>\<open>atan2(y, x)\<close> on reals: the angle of the point \<open>(x, y)\<close> in
  \<open>(-\<pi>, \<pi>]\<close>, with \<open>atan2(0, 0) = 0\<close>.
\<close>

definition atan2 :: "real \<Rightarrow> real \<Rightarrow> real" where
  "atan2 y x =
     (if 0 < x then arctan (y / x)
      else if x < 0 then (if 0 \<le> y then arctan (y / x) + pi else arctan (y / x) - pi)
      else if 0 < y then pi / 2
      else if y < 0 then - (pi / 2)
      else 0)"

text \<open>Lightweight signed SO(2) distance; assumes x and y are in \<open>[-\<pi>, \<pi>]\<close>.\<close>

definition signedSO2Distance :: "real \<Rightarrow> real \<Rightarrow> real" where
  "signedSO2Distance x y =
     (let d0 = x - y in
      if d0 < - pi then d0 + 2 * pi
      else if pi < d0 then d0 - 2 * pi
      else d0)"

subsection \<open>KoulesStateSpace: masses, radii and bounds\<close>

record KoulesStateSpace =
  mass :: "real list"
  radius :: "real list"
  bounds_low :: "real list"
  bounds_high :: "real list"

text \<open>
  The constructor: \<open>numKoules + 1\<close> masses and radii, the last entry being the ship's;
  the bounds of the real-vector part are filled koule by koule, then for the ship.
\<close>

definition kouleBoundsLow :: "real list" where
  "kouleBoundsLow = [- kouleRadius, - kouleRadius, - 10, - 10]"

definition kouleBoundsHigh :: "real list" where
  "kouleBoundsHigh = [sideLength + kouleRadius, sideLength + kouleRadius, 10, 10]"

definition mkKoulesStateSpace :: "nat \<Rightarrow> KoulesStateSpace" where
  "mkKoulesStateSpace numKoules =
     \<lparr> mass = (replicate (numKoules + 1) kouleMass)[numKoules := shipMass],
       radius = (replicate (numKoules + 1) kouleRadius)[numKoules := shipRadius],
       bounds_low = concat (replicate numKoules kouleBoundsLow)
                      @ [shipRadius, shipRadius, - 10, - 10],
       bounds_high = concat (replicate numKoules kouleBoundsHigh)
                      @ [sideLength - shipRadius, sideLength - shipRadius, 10, 10] \<rparr>"

definition getMass :: "KoulesStateSpace \<Rightarrow> nat \<Rightarrow> real" where
  "getMass sp i = mass sp ! i"

definition getRadius :: "KoulesStateSpace \<Rightarrow> nat \<Rightarrow> real" where
  "getRadius sp i = radius sp ! i"

section \<open>KoulesGoal\<close>

text \<open>
  \<^verbatim>\<open>KoulesGoal::distanceGoal\<close>: the loop over the koules keeps the running minimum
  \<open>minDist\<close>, which starts at \<open>sideLength\<close>; a negative result is clamped to zero.
\<close>

definition distanceGoal_step :: "state \<Rightarrow> nat \<Rightarrow> real \<Rightarrow> real" where
  "distanceGoal_step v i minDist =
     (let minX = min (v ! (4 * i)) (sideLength - v ! (4 * i));
          minY = min (v ! (4 * i + 1)) (sideLength - v ! (4 * i + 1))
      in min minDist (min minX minY - kouleRadius + threshold))"

definition distanceGoal :: "nat \<Rightarrow> state \<Rightarrow> real" where
  "distanceGoal numKoules v =
     (let minDist = fold (distanceGoal_step v) [0..<numKoules] sideLength
      in if minDist < 0 then 0 else minDist)"

text \<open>
  The distance of koule \<open>i\<close> to the nearest of the four arena edges \<open>x = 0\<close>,
  \<open>x = sideLength\<close>, \<open>y = 0\<close>, \<open>y = sideLength\<close>, as the specification words it.
\<close>

definition edgeDistance :: "state \<Rightarrow> nat \<Rightarrow> real" where
  "edgeDistance v i =
     Min {v ! (4 * i), sideLength - v ! (4 * i), v ! (4 * i + 1), sideLength - v ! (4 * i + 1)}"

text \<open>
  Modelled from the spec: \<^verbatim>\<open>GoalRegion::isSatisfied\<close> belongs to the planning library and
  is not part of \<^verbatim>\<open>Koules.cpp\<close>. The goal-satisfaction threshold is a configuration
  constant of the goal region, and a state satisfies the goal when its distance to the
  goal is at most that threshold.
\<close>

definition isSatisfied :: "nat \<Rightarrow> state \<Rightarrow> bool" where
  "isSatisfied numKoules st = (distanceGoal numKoules st \<le> threshold)"

text \<open>
  Modelled from the spec: \<^verbatim>\<open>isStateValid\<close> only forwards to the library's
  \<^verbatim>\<open>satisfiesBounds\<close>, the generic validity predicate "all coordinates within
  configured bounds"; the configured bounds are those the constructor of
  \<^verbatim>\<open>KoulesStateSpace\<close> sets for the positions and velocities.
\<close>

definition satisfiesBounds :: "KoulesStateSpace \<Rightarrow> state \<Rightarrow> bool" where
  "satisfiesBounds sp st =
     list_all (\<lambda>i. bounds_low sp ! i \<le> st ! i \<and> st ! i \<le> bounds_high sp ! i)
       [0..<length (bounds_low sp)]"

definition isStateValid :: "KoulesStateSpace \<Rightarrow> state \<Rightarrow> bool" where
  "isStateValid sp st = satisfiesBounds sp st"

section \<open>KoulesControlSampler\<close>

text \<open>
  The random number generator is modelled by its draws, passed as arguments: \<open>r\<close> is the
  value of \<^verbatim>\<open>rng_.uniformReal(bounds.low[0], bounds.high[0])\<close> and \<open>theta\<close> the value of
  \<^verbatim>\<open>rng_.uniformReal(0., 2 * pi)\<close>.
\<close>

definition sample :: "real \<Rightarrow> real \<Rightarrow> control" where
  "sample r theta = (r * cos theta, r * sin theta)"

definition steer :: "nat \<Rightarrow> state \<Rightarrow> real \<Rightarrow> real \<Rightarrow> real \<Rightarrow> real \<Rightarrow> control" where
  "steer dimension st x y r theta =
     (let dx = x - st ! (dimension - 5);
          dy = y - st ! (dimension - 4);
          xNrm2 = dx * dx + dy * dy
      in if xNrm2 > float_epsilon
         then (let v = r / sqrt xNrm2 in (v * dx, v * dy))
         else sample r theta)"

section \<open>KoulesStatePropagator\<close>

text \<open>
  The command \<open>u = (u[0], u[1], u[2])\<close> that \<^verbatim>\<open>propagate\<close> derives from the control
  before integrating (thrust in x and y, torque); \<open>u\<close> starts as \<open>{0, 0, 0}\<close>.
\<close>

definition bangBang :: "control \<Rightarrow> state \<Rightarrow> nat \<Rightarrow> real \<times> real \<times> real" where
  "bangBang cval q offset =
     (let v0 = fst cval - q ! (offset + 2);
          v1 = snd cval - q ! (offset + 3);
          deltaTheta = signedSO2Distance (atan2 v1 v0) (q ! (offset + 4))
      in if v0 * v0 + v1 * v1 > shipDelta * shipDelta
         then (if \<bar>deltaTheta\<bar> < shipEps
               then (shipAcceleration * cos (q ! (offset + 4)),
                     shipAcceleration * sin (q ! (offset + 4)), 0)
               else if deltaTheta > 0 then (0, 0, shipRotVel)
               else (0, 0, - shipRotVel))
         else (0, 0, 0))"

text \<open>\<^verbatim>\<open>ode\<close>: the derivative vector \<open>qdot\<close>, written entry by entry.\<close>

definition ode_koule :: "state \<Rightarrow> nat \<Rightarrow> real list \<Rightarrow> real list" where
  "ode_koule q i qdot =
     qdot[i := q ! (i + 2),
          i + 1 := q ! (i + 3),
          i + 2 := (0.5 * sideLength - q ! i) * lambda_c - q ! (i + 2) * h,
          i + 3 := (0.5 * sideLength - q ! (i + 1)) * lambda_c - q ! (i + 3) * h]"

definition ode :: "nat \<Rightarrow> state \<Rightarrow> real \<times> real \<times> real \<Rightarrow> real list \<Rightarrow> real list" where
  "ode numKoules q u qdot =
     (let offset = 4 * numKoules;
          qdot1 = fold (\<lambda>k. ode_koule q (4 * k)) [0..<numKoules] qdot
      in qdot1[offset := q ! (offset + 2),
               offset + 1 := q ! (offset + 3),
               offset + 2 := fst u,
               offset + 3 := fst (snd u),
               offset + 4 := snd (snd u)])"

text \<open>
  \<^verbatim>\<open>checkCollision\<close>. The velocities after an elastic collision of objects \<open>i\<close> and \<open>j\<close>,
  \<open>(aNewVel[0], aNewVel[1], bNewVel[0], bNewVel[1])\<close>, computed from the normal and
  tangent projections.
\<close>

definition newVelocities ::
  "KoulesStateSpace \<Rightarrow> nat \<Rightarrow> nat \<Rightarrow> state \<Rightarrow> real \<times> real \<times> real \<times> real" where
  "newVelocities sp i j q =
     (let a = 4 * i; b = 4 * j;
          dx = q ! a - q ! b;
          dy = q ! (a + 1) - q ! (b + 1);
          dist = sqrt (dx * dx + dy * dy);
          normal0 = dx / dist; normal1 = dy / dist;
          tangent0 = - normal1; tangent1 = normal0;
          aNormal = normal0 * q ! (a + 2) + normal1 * q ! (a + 3);
          aTangentPrime = tangent0 * q ! (a + 2) + tangent1 * q ! (a + 3);
          bNormal = normal0 * q ! (b + 2) + normal1 * q ! (b + 3);
          bTangentPrime = tangent0 * q ! (b + 2) + tangent1 * q ! (b + 3);
          massA = getMass sp i;
          massB = getMass sp j;
          aNormalPrime = (aNormal * (massA - massB) + 2 * massB * bNormal) / (massA + massB);
          bNormalPrime = (bNormal * (massB - massA) + 2 * massA * aNormal) / (massA + massB);
          aNewNormalVel0 = normal0 * aNormalPrime; aNewNormalVel1 = normal1 * aNormalPrime;
          aNewTangentVel0 = tangent0 * aTangentPrime; aNewTangentVel1 = tangent1 * aTangentPrime;
          bNewNormalVel0 = normal0 * bNormalPrime; bNewNormalVel1 = normal1 * bNormalPrime;
          bNewTangentVel0 = tangent0 * bTangentPrime; bNewTangentVel1 = tangent1 * bTangentPrime
      in (aNewNormalVel0 + aNewTangentVel0, aNewNormalVel1 + aNewTangentVel1,
          bNewNormalVel0 + bNewTangentVel0, bNewNormalVel1 + bNewTangentVel1))"

text \<open>
  \<^verbatim>\<open>static const float delta = 1e-5\<close>: the constant is a single-precision number, the
  one nearest to \<open>0.00001\<close>, which is \<open>2748779 / 2 ^ 38\<close> (about \<open>9.99999975e-06\<close>); it is
  promoted to double, unchanged, where it is added to the radii.
\<close>

definition delta :: real where
  "delta = 2748779 / 2 ^ 38"

text \<open>The test "close enough and moving closer" that guards the collision response.\<close>

definition colliding :: "KoulesStateSpace \<Rightarrow> nat \<Rightarrow> nat \<Rightarrow> state \<Rightarrow> bool" where
  "colliding sp i j q =
     (let a = 4 * i; b = 4 * j;
          dx = q ! a - q ! b;
          dy = q ! (a + 1) - q ! (b + 1);
          dist = dx * dx + dy * dy;
          minDist = getRadius sp i + getRadius sp j + delta
      in dist < minDist * minDist
         \<and> (q ! (b + 2) - q ! (a + 2)) * dx + (q ! (b + 3) - q ! (a + 3)) * dy > 0)"

text \<open>
  The three \<^verbatim>\<open>assert\<close>s of the collision branch (preservation of momentum in x and y,
  preservation of kinetic energy), as a predicate on the state before the response.
\<close>

definition collisionAsserts :: "KoulesStateSpace \<Rightarrow> nat \<Rightarrow> nat \<Rightarrow> state \<Rightarrow> bool" where
  "collisionAsserts sp i j q =
     (let a = 4 * i; b = 4 * j;
          massA = getMass sp i; massB = getMass sp j;
          (aNewVel0, aNewVel1, bNewVel0, bNewVel1) = newVelocities sp i j q
      in \<bar>massA * (q ! (a + 2) - aNewVel0) + massB * (q ! (b + 2) - bNewVel0)\<bar> < 0.000001
         \<and> \<bar>massA * (q ! (a + 3) - aNewVel1) + massB * (q ! (b + 3) - bNewVel1)\<bar> < 0.000001
         \<and> \<bar>massA * (q ! (a + 2) * q ! (a + 2) + q ! (a + 3) * q ! (a + 3)
                      - aNewVel0 * aNewVel0 - aNewVel1 * aNewVel1)
             + massB * (q ! (b + 2) * q ! (b + 2) + q ! (b + 3) * q ! (b + 3)
                      - bNewVel0 * bNewVel0 - bNewVel1 * bNewVel1)\<bar> < 0.000001)"

text \<open>
  \<^verbatim>\<open>checkCollision(i, j, dt)\<close> on the scratch vector \<open>q\<close>: the result and the updated \<open>q\<close>.
  The writes through \<open>a\<close> and \<open>b\<close> happen in the order of the source.
\<close>

definition checkCollision ::
  "KoulesStateSpace \<Rightarrow> nat \<Rightarrow> nat \<Rightarrow> real \<Rightarrow> state \<Rightarrow> bool \<times> state" where
  "checkCollision sp i j dt q =
     (if colliding sp i j q
      then (let a = 4 * i; b = 4 * j;
                (aNewVel0, aNewVel1, bNewVel0, bNewVel1) = newVelocities sp i j q;
                q1 = q[a := q ! a + aNewVel0 * dt];
                q2 = q1[a + 1 := q1 ! (a + 1) + aNewVel1 * dt];
                q3 = q2[a + 2 := aNewVel0];
                q4 = q3[a + 3 := aNewVel1];
                q5 = q4[b := q4 ! b + bNewVel0 * dt];
                q6 = q5[b + 1 := q5 ! (b + 1) + bNewVel1 * dt];
                q7 = q6[b + 2 := bNewVel0];
                q8 = q7[b + 3 := bNewVel1]
            in (True, q8))
      else (False, q))"

text \<open>
  \<^verbatim>\<open>update(dt)\<close>: first the collision loop over all pairs \<open>i < j \<le> numKoules\<close>, which
  sets the flags \<open>hasCollision\<close>; then the Euler step of the objects without a collision.
\<close>

definition collidePair ::
  "KoulesStateSpace \<Rightarrow> real \<Rightarrow> nat \<Rightarrow> nat \<Rightarrow> state \<times> bool list \<Rightarrow> state \<times> bool list" where
  "collidePair sp dt i j qh =
     (let (c, q') = checkCollision sp i j dt (fst qh)
      in if c then (q', (snd qh)[i := True, j := True]) else (q', snd qh))"

definition updateCollisions ::
  "KoulesStateSpace \<Rightarrow> nat \<Rightarrow> real \<Rightarrow> state \<Rightarrow> state \<times> bool list" where
  "updateCollisions sp numKoules dt q =
     fold (\<lambda>i. fold (collidePair sp dt i) [i + 1..<numKoules + 1]) [0..<numKoules]
       (q, replicate (numKoules + 1) False)"

definition eulerObject :: "real list \<Rightarrow> real \<Rightarrow> nat \<Rightarrow> nat \<Rightarrow> state \<Rightarrow> state" where
  "eulerObject qdot dt base len q =
     fold (\<lambda>j q. q[base + j := q ! (base + j) + qdot ! (base + j) * dt]) [0..<len] q"

definition update ::
  "KoulesStateSpace \<Rightarrow> nat \<Rightarrow> real \<Rightarrow> real list \<Rightarrow> state \<Rightarrow> state" where
  "update sp numKoules dt qdot q =
     (let (q1, hasCollision) = updateCollisions sp numKoules dt q;
          q2 = fold (\<lambda>i q. if \<not> hasCollision ! i then eulerObject qdot dt (4 * i) 4 q else q)
                 [0..<numKoules] q1
      in if \<not> hasCollision ! numKoules then eulerObject qdot dt (4 * numKoules) 5 q2 else q2)"

text \<open>
  Modelled from the spec: \<^verbatim>\<open>SO2StateSpace::enforceBounds\<close> belongs to the planning
  library and is not part of \<^verbatim>\<open>Koules.cpp\<close>. It re-normalizes the heading into
  \<open>(-\<pi>, \<pi>]\<close>: the remainder of the angle by a full turn, shifted by a full turn when it
  falls outside that interval.
\<close>

definition fmod :: "real \<Rightarrow> real \<Rightarrow> real" where
  "fmod x y = x - y * of_int (if 0 \<le> x / y then \<lfloor>x / y\<rfloor> else \<lceil>x / y\<rceil>)"

definition enforceBounds :: "real \<Rightarrow> real" where
  "enforceBounds theta =
     (let v = fmod theta (2 * pi)
      in if v \<le> - pi then v + 2 * pi
         else if v > pi then v - 2 * pi
         else v)"

text \<open>
  \<^verbatim>\<open>propagate\<close>. The scratch vector \<open>q\<close> is loaded from the start state, and every entry
  of the scratch vector \<open>qdot\<close> is overwritten by \<^verbatim>\<open>ode\<close> before \<^verbatim>\<open>update\<close> reads it, so
  both are local values here. \<open>timeStep_\<close> is \<open>integrationStepSize\<close>.
\<close>

fun integrate ::
  "KoulesStateSpace \<Rightarrow> nat \<Rightarrow> real \<times> real \<times> real \<Rightarrow> real \<Rightarrow> nat \<Rightarrow> state \<Rightarrow> state" where
  "integrate sp numKoules u dt 0 q = q"
| "integrate sp numKoules u dt (Suc k) q =
     integrate sp numKoules u dt k
       (update sp numKoules dt (ode numKoules q u (replicate (4 * numKoules + 5) 0)) q)"

definition propagate :: "KoulesStateSpace \<Rightarrow> nat \<Rightarrow> state \<Rightarrow> control \<Rightarrow> real \<Rightarrow> state" where
  "propagate sp numKoules start cval duration =
     (let numSteps = nat \<lceil>duration / integrationStepSize\<rceil>;
          offset = 4 * numKoules;
          dt = duration / real numSteps;
          u = bangBang cval start offset;
          q = integrate sp numKoules u dt numSteps start
      in q[offset + 4 := enforceBounds (q ! (offset + 4))])"

section \<open>KoulesDirectedControlSampler\<close>

text \<open>
  \<^verbatim>\<open>sampleTo\<close> works on state objects through pointers, and two of its pointers are swapped
  while it runs, so the states live in an explicit store: a list of states, a pointer
  being an index into it. \<^verbatim>\<open>allocState\<close> appends a fresh cell (its content is never read
  before \<^verbatim>\<open>propagate\<close> has written it) and \<^verbatim>\<open>freeState\<close> removes it again.

  The services that \<^verbatim>\<open>sampleTo\<close> calls on its collaborators (\<^verbatim>\<open>statePropagator_\<close>,
  \<^verbatim>\<open>goal_\<close>, \<^verbatim>\<open>si_\<close>) and the settings it reads are the fields of a record.
\<close>

type_synonym store = "state list"

record sampler_env =
  statePropagator :: "state \<Rightarrow> control \<Rightarrow> real \<Rightarrow> state"
  goalIsSatisfied :: "state \<Rightarrow> bool"
  siIsValid :: "state \<Rightarrow> bool"
  getPropagationStepSize :: real
  getMinControlDuration :: nat
  getMaxControlDuration :: nat
  getDimension :: nat
  propagateMax :: bool

text \<open>The draws of the random number generators during one call of \<^verbatim>\<open>sampleTo\<close>.\<close>

record draws =
  stepCount :: nat
  magnitude :: real
  angle :: real

definition copyState :: "store \<Rightarrow> nat \<Rightarrow> nat \<Rightarrow> store" where
  "copyState mem destination src = mem[destination := mem ! src]"

text \<open>
  The code after the \<^verbatim>\<open>for\<close> loop, reached when the loop runs out or breaks: \<open>dest\<close>
  receives the last valid state \<open>temp1\<close>.
\<close>

definition afterLoop :: "nat \<Rightarrow> nat \<Rightarrow> nat \<Rightarrow> store \<Rightarrow> nat \<times> store" where
  "afterLoop r dest temp1 mem = (r, if dest \<noteq> temp1 then copyState mem dest temp1 else mem)"

text \<open>
  The \<^verbatim>\<open>for\<close> loop of \<^verbatim>\<open>sampleTo\<close>, from the value \<open>i\<close> of its counter; \<open>temp1\<close> and
  \<open>temp2\<close> are the two swapped pointers. The result is the returned step count and the
  store before \<^verbatim>\<open>freeState\<close>.
\<close>

function sampleToLoop ::
  "sampler_env \<Rightarrow> control \<Rightarrow> nat \<Rightarrow> nat \<Rightarrow> nat \<Rightarrow> nat \<Rightarrow> nat \<Rightarrow> store \<Rightarrow> nat \<times> store" where
  "sampleToLoop e control steps dest i temp1 temp2 mem =
     (if i < steps
      then (let mem1 = mem[temp2 :=
                         statePropagator e (mem ! temp1) control (getPropagationStepSize e)]
            in if goalIsSatisfied e (mem1 ! dest)
               then (i + 1, copyState mem1 dest temp2)
               else if siIsValid e (mem1 ! temp2)
               then sampleToLoop e control steps dest (i + 1) temp2 temp1 mem1
               else afterLoop i dest temp1 mem1)
      else afterLoop steps dest temp1 mem)"
  by pat_completeness auto
termination
  by (relation "measure (\<lambda>(e, control, steps, dest, i, temp1, temp2, mem). steps - i)") auto

declare sampleToLoop.simps [simp del]

definition sampleTo ::
  "sampler_env \<Rightarrow> draws \<Rightarrow> store \<Rightarrow> nat \<Rightarrow> nat \<Rightarrow> nat \<times> control \<times> store" where
  "sampleTo e d mem source dest =
     (let dstPos = mem ! dest;
          stepSize = getPropagationStepSize e;
          steps = (if propagateMax e then getMaxControlDuration e else stepCount d);
          dimension = getDimension e;
          control = steer dimension (mem ! source)
                      (dstPos ! (dimension - 5)) (dstPos ! (dimension - 4))
                      (magnitude d) (angle d);
          mem1 = mem[dest := statePropagator e (mem ! source) control stepSize]
      in if goalIsSatisfied e (mem1 ! dest) then (1, control, mem1)
         else if siIsValid e (mem1 ! dest)
         then (let temp2 = length mem1;
                   (r, mem2) = sampleToLoop e control steps dest 1 dest temp2 (mem1 @ [[]])
               in (r, control, butlast mem2))
         else (0, control, if dest \<noteq> source then copyState mem1 dest source else mem1))"

text \<open>
  The sampler environment that \<^verbatim>\<open>koulesSetup\<close> builds for an instance with \<open>numKoules\<close>
  koules.
\<close>

definition koulesEnv :: "nat \<Rightarrow> bool \<Rightarrow> sampler_env" where
  "koulesEnv numKoules pmax =
     \<lparr> statePropagator = propagate (mkKoulesStateSpace numKoules) numKoules,
       goalIsSatisfied = isSatisfied numKoules,
       siIsValid = isStateValid (mkKoulesStateSpace numKoules),
       getPropagationStepSize = propagationStepSize,
       getMinControlDuration = propagationMinSteps,
       getMaxControlDuration = propagationMaxSteps,
       getDimension = 4 * numKoules + 5,
       propagateMax = pmax \<rparr>"

text \<open>
  The states after 1, 2, 3, \<dots> propagation steps of size \<open>stepSize\<close> from a source state
  under a fixed control: \<open>stateAfter e c s k\<close> is the state produced by step \<open>k\<close>.
\<close>

fun stateAfter :: "sampler_env \<Rightarrow> control \<Rightarrow> state \<Rightarrow> nat \<Rightarrow> state" where
  "stateAfter e c s 0 = s"
| "stateAfter e c s (Suc k) = statePropagator e (stateAfter e c s k) c (getPropagationStepSize e)"

section \<open>The level-reduction step of planAllLevelsRecursive\<close>

text \<open>
  The construction of \<open>nextStart\<close> from the final state \<open>s\<close> of a solution path: the loop
  over \<open>j = 0, 4, 8, \<dots> < s.size() - 5\<close> keeps the koules within the workspace, then the
  ship's five values are appended.
\<close>

definition keepKoule :: "state \<Rightarrow> nat \<Rightarrow> bool" where
  "keepKoule s j =
     (min (s ! j) (s ! (j + 1)) > kouleRadius
      \<and> max (s ! j) (s ! (j + 1)) < sideLength - kouleRadius)"

definition pushKoule :: "state \<Rightarrow> nat \<Rightarrow> state \<Rightarrow> state" where
  "pushKoule s j nextStart =
     (if keepKoule s j then fold (\<lambda>k ns. ns @ [s ! (j + k)]) [0..<4] nextStart else nextStart)"

definition nextStart :: "state \<Rightarrow> state" where
  "nextStart s =
     (let ns = fold (\<lambda>k. pushKoule s (4 * k)) [0..<(length s - 5 + 3) div 4] []
      in fold (\<lambda>j ns. ns @ [s ! j]) [length s - 5..<length s] ns)"

text \<open>The number of koules of a flat state vector, \<open>(size - 5) / 4\<close>.\<close>

definition numKoulesOf :: "state \<Rightarrow> nat" where
  "numKoulesOf s = (length s - 5) div 4"

section \<open>The bang-bang command as the specification words it\<close>

text \<open>
  The three cases as the specification states them, with the first case taken when the
  magnitude of the velocity error is strictly below \<open>shipDelta\<close>. It is compared with
  \<open>bangBang\<close> below.
\<close>

definition bangBangSpec :: "control \<Rightarrow> state \<Rightarrow> nat \<Rightarrow> real \<times> real \<times> real" where
  "bangBangSpec cval q offset =
     (let v0 = fst cval - q ! (offset + 2);
          v1 = snd cval - q ! (offset + 3);
          theta = q ! (offset + 4);
          deltaTheta = signedSO2Distance (atan2 v1 v0) theta
      in if sqrt (v0\<^sup>2 + v1\<^sup>2) < shipDelta then (0, 0, 0)
         else if \<bar>deltaTheta\<bar> < shipEps
         then (shipAcceleration * cos theta, shipAcceleration * sin theta, 0)
         else (0, 0, sgn deltaTheta * shipRotVel))"

section \<open>The collision test as the specification words it\<close>

text \<open>
  The collision test as the specification states it, with \<open>\<epsilon> = 1e-5\<close> taken as the real
  number \<open>0.00001\<close>: the squared distance of the centers is less than
  \<open>(radiusA + radiusB + \<epsilon>)\<^sup>2\<close> and the relative velocity projected onto the
  center-separation vector is negative. It is compared with \<open>checkCollision\<close> below.
\<close>

definition collidingSpec :: "KoulesStateSpace \<Rightarrow> nat \<Rightarrow> nat \<Rightarrow> state \<Rightarrow> bool" where
  "collidingSpec sp i j q =
     (let dx = q ! (4 * i) - q ! (4 * j);
          dy = q ! (4 * i + 1) - q ! (4 * j + 1);
          rvx = q ! (4 * i + 2) - q ! (4 * j + 2);
          rvy = q ! (4 * i + 3) - q ! (4 * j + 3)
      in dx\<^sup>2 + dy\<^sup>2 < (getRadius sp i + getRadius sp j + 0.00001)\<^sup>2
         \<and> rvx * dx + rvy * dy < 0)"

section \<open>Two concrete calls of sampleTo\<close>

text \<open>
  The environment of a one-koule instance whose planner draws the step count
  (\<open>propagateMax\<close> is false, as for every planner but PDST).
\<close>

definition exampleEnv :: sampler_env where
  "exampleEnv = koulesEnv 1 False"

text \<open>
  First call: the koule is near the left edge and moving outwards, the ship drifts to the
  right with the velocity that the control asks for. \<open>missDest\<close> is the state passed in
  \<open>dest\<close>, whose ship position is the steering target; three steps are drawn.
  \<open>missS1\<close>, \<open>missS2\<close> and \<open>missS3\<close> are the states after one, two and three propagation
  steps from \<open>missSource\<close>.
\<close>

definition missSource :: state where
  "missSource = [0.022, 0.5, - 0.16, 0, 0.5, 0.5, 0.1, 0, 0]"

definition missDest :: state where
  "missDest = [0.5, 0.5, 0, 0, 0.9, 0.5, 0, 0, 0]"

definition missDraws :: draws where
  "missDraws = \<lparr> stepCount = 3, magnitude = 0.1, angle = 0 \<rparr>"

definition missControl :: control where
  "missControl = (0.1, 0)"

definition missS1 :: state where
  "missS1 = [1990631807617 / 125000000000000,
     1 / 2,
     - (158832896100417 / 2500000000000000),
     0,
     101 / 200,
     1 / 2,
     1 / 10,
     0,
     0]"

definition missS2 :: state where
  "missS2 = [58756225019614962547519698383 / 4000000000000000000000000000000,
     1 / 2,
     2681612466291862288329394194417 / 80000000000000000000000000000000,
     0,
     51 / 100,
     1 / 2,
     1 / 10,
     0,
     0]"

definition missS3 :: state where
  "missS3 = [2342647554388435640090386510188419501516795617 / 128000000000000000000000000000000000000000000000,
     1 / 2,
     333286621864875944177434296483457652352599711583 / 2560000000000000000000000000000000000000000000000,
     0,
     103 / 200,
     1 / 2,
     1 / 10,
     0,
     0]"

text \<open>
  Second and third call: the ship is close to the right bound of its workspace and moving
  to the right, so the first propagation step leaves the bounds. \<open>edgeDest\<close> is a second
  state object passed in \<open>dest\<close>; \<open>edgeS1\<close> is the state after one propagation step from
  \<open>edgeSource\<close>.
\<close>

definition edgeSource :: state where
  "edgeSource = [0.5, 0.5, 0, 0, 0.96, 0.5, 0.5, 0, 0]"

definition edgeDest :: state where
  "edgeDest = [0.5, 0.5, 0, 0, 0.97, 0.5, 0, 0, 0]"

definition edgeDraws :: draws where
  "edgeDraws = \<lparr> stepCount = 1, magnitude = 0.5, angle = 0 \<rparr>"

definition edgeControl :: control where
  "edgeControl = (0.5, 0)"

definition edgeS1 :: state where
  "edgeS1 = [0.5, 0.5, 0, 0, 0.985, 0.5, 0.5, 0, 0]"

section \<open>Properties of the goal distance\<close>

lemma distanceGoal_step_edgeDistance:
  "distanceGoal_step v i m = min m (edgeDistance v i - kouleRadius + threshold)"
  by (simp add: distanceGoal_step_def edgeDistance_def Let_def min.assoc min.commute
      min.left_commute)

lemma fold_distanceGoal_step:
  "fold (distanceGoal_step v) [0..<n] a =
     Min (insert a ((\<lambda>i. edgeDistance v i - kouleRadius + threshold) ` {0..<n}))"
proof (induction n)
  case 0
  show ?case by simp
next
  case (Suc n)
  let ?f = "\<lambda>i. edgeDistance v i - kouleRadius + threshold"
  have "Min (insert a (?f ` {0..<Suc n})) = Min (insert (?f n) (insert a (?f ` {0..<n})))"
    by (simp add: atLeast0_lessThan_Suc insert_commute)
  also have "\<dots> = min (?f n) (Min (insert a (?f ` {0..<n})))"
    by (rule Min_insert) simp_all
  finally show ?case
    using Suc by (simp add: distanceGoal_step_edgeDistance min.commute)
qed

lemma edgeDistance_le_half: "edgeDistance v i \<le> sideLength / 2"
proof -
  have "edgeDistance v i \<le> min (v ! (4 * i)) (sideLength - v ! (4 * i))"
    by (simp add: edgeDistance_def)
  also have "\<dots> \<le> sideLength / 2"
    by (simp add: min_def)
  finally show ?thesis .
qed

lemma fold_distanceGoal_step_nonempty:
  assumes "0 < n"
  shows "fold (distanceGoal_step v) [0..<n] sideLength =
     Min ((\<lambda>i. edgeDistance v i - kouleRadius + threshold) ` {0..<n})"
proof -
  let ?f = "\<lambda>i. edgeDistance v i - kouleRadius + threshold"
  have ne: "?f ` {0..<n} \<noteq> {}"
    using assms by simp
  have "?f 0 \<in> ?f ` {0..<n}"
    using assms by simp
  then have "Min (?f ` {0..<n}) \<le> ?f 0"
    by (intro Min_le) simp_all
  also have "?f 0 \<le> sideLength"
    using edgeDistance_le_half [of v 0]
    by (simp add: sideLength_def kouleRadius_def threshold_def)
  finally have le: "Min (?f ` {0..<n}) \<le> sideLength" .
  have "Min (insert sideLength (?f ` {0..<n})) = min sideLength (Min (?f ` {0..<n}))"
    using ne by simp
  with le show ?thesis
    by (simp add: fold_distanceGoal_step min_def)
qed



section \<open>The bang-bang controller\<close>

lemma shipDelta_pos: "0 < shipDelta"
  by (simp add: shipDelta_def shipAcceleration_def propagationStepSize_def)

lemma shipEps_pos: "0 < shipEps"
  by (simp add: shipEps_def shipRotVel_def propagationStepSize_def)

lemma norm_le_shipDelta_iff:
  "sqrt (v0\<^sup>2 + v1\<^sup>2) \<le> shipDelta \<longleftrightarrow> \<not> v0 * v0 + v1 * v1 > shipDelta * shipDelta"
proof -
  have "sqrt (v0\<^sup>2 + v1\<^sup>2) \<le> shipDelta \<longleftrightarrow> v0\<^sup>2 + v1\<^sup>2 \<le> shipDelta\<^sup>2"
    using shipDelta_pos real_le_lsqrt [of shipDelta "v0\<^sup>2 + v1\<^sup>2"]
      sqrt_le_D [of "v0\<^sup>2 + v1\<^sup>2" shipDelta]
    by auto
  then show ?thesis
    by (simp add: power2_eq_square not_less)
qed

text \<open>
  Claim C5, as amended. The command is one of three cases: when the magnitude of
  (desired velocity - current ship velocity) is at most \<open>shipDelta\<close>, thrust and torque are
  zero; else when the absolute signed angular difference between \<open>atan2\<close> of the velocity
  error and the heading is below \<open>shipEps\<close>, the thrust is \<open>shipAcceleration\<close> along the
  heading and the torque is zero; otherwise the thrust is zero and the torque is
  \<open>shipRotVel\<close> with the sign of the angular difference. Thrust and torque are never
  both nonzero.
\<close>

theorem bangBang_three_cases:
  "bangBang cval q offset =
     (let v0 = fst cval - q ! (offset + 2);
          v1 = snd cval - q ! (offset + 3);
          theta = q ! (offset + 4);
          deltaTheta = signedSO2Distance (atan2 v1 v0) theta
      in if sqrt (v0\<^sup>2 + v1\<^sup>2) \<le> shipDelta then (0, 0, 0)
         else if \<bar>deltaTheta\<bar> < shipEps
         then (shipAcceleration * cos theta, shipAcceleration * sin theta, 0)
         else (0, 0, sgn deltaTheta * shipRotVel))
   \<and> ((fst (bangBang cval q offset) = 0 \<and> fst (snd (bangBang cval q offset)) = 0)
        \<or> snd (snd (bangBang cval q offset)) = 0)"
  using shipEps_pos
  by (auto simp add: bangBang_def Let_def norm_le_shipDelta_iff sgn_if)

text \<open>
  Claim C5 as stated fails where the magnitude of the velocity error equals \<open>shipDelta\<close>:
  with control \<open>(0.05, 0)\<close>, ship velocity \<open>(0.025, 0)\<close> and heading 0 the code applies no
  thrust, while the stated case distinction gives full thrust along the heading.
\<close>

theorem bangBang_boundary_counterexample:
  "bangBang (0.05, 0) [0.5, 0.5, 0.025, 0, 0] 0 = (0, 0, 0)
   \<and> bangBangSpec (0.05, 0) [0.5, 0.5, 0.025, 0, 0] 0 = (1, 0, 0)"
  by (simp add: bangBang_def bangBangSpec_def Let_def shipDelta_def shipAcceleration_def
      propagationStepSize_def atan2_def signedSO2Distance_def shipEps_def shipRotVel_def
      power2_eq_square)

section \<open>Collision detection\<close>

text \<open>
  Claim C6, as amended. \<open>checkCollision\<close> reports a collision exactly when the squared
  distance of the centers is less than \<open>(radiusA + radiusB + delta)\<^sup>2\<close>, where \<open>delta\<close> is
  the single-precision constant written \<open>1e-5\<close> in the source (\<open>2748779 / 2 ^ 38\<close>,
  slightly below \<open>0.00001\<close>), and the relative velocity projected onto the
  center-separation vector is negative; when either condition fails it returns false and
  leaves the state unchanged.
\<close>

theorem checkCollision_iff:
  "(let dx = q ! (4 * i) - q ! (4 * j);
        dy = q ! (4 * i + 1) - q ! (4 * j + 1);
        rvx = q ! (4 * i + 2) - q ! (4 * j + 2);
        rvy = q ! (4 * i + 3) - q ! (4 * j + 3);
        hit = (dx\<^sup>2 + dy\<^sup>2 < (getRadius sp i + getRadius sp j + delta)\<^sup>2
               \<and> rvx * dx + rvy * dy < 0)
    in fst (checkCollision sp i j dt q) = hit
       \<and> (if hit then True else checkCollision sp i j dt q = (False, q)))"
proof -
  have "(q ! (4 * j + 2) - q ! (4 * i + 2)) * dx + (q ! (4 * j + 3) - q ! (4 * i + 3)) * dy > 0
     \<longleftrightarrow> (q ! (4 * i + 2) - q ! (4 * j + 2)) * dx + (q ! (4 * i + 3) - q ! (4 * j + 3)) * dy < 0"
    for dx dy
    by (simp add: algebra_simps)
  then show ?thesis
    by (simp add: checkCollision_def colliding_def Let_def power2_eq_square split_beta)
qed

text \<open>
  Claim C6 as stated, with \<open>\<epsilon> = 0.00001\<close>, fails between the two bounds: a koule at
  \<open>x = 0.5450099999999\<close> approaching a ship at \<open>x = 0.5\<close> on the same height is at
  distance \<open>0.0450099999999\<close>, below \<open>0.045 + 0.00001\<close> but above \<open>0.045 + delta\<close>; the
  stated test holds, and \<open>checkCollision\<close> returns false and leaves the state unchanged.
\<close>

theorem checkCollision_epsilon_counterexample:
  "collidingSpec (mkKoulesStateSpace 1) 0 1 [0.5450099999999, 0.5, - 0.1, 0, 0.5, 0.5, 0, 0, 0]
   \<and> checkCollision (mkKoulesStateSpace 1) 0 1 0.01
         [0.5450099999999, 0.5, - 0.1, 0, 0.5, 0.5, 0, 0, 0]
       = (False, [0.5450099999999, 0.5, - 0.1, 0, 0.5, 0.5, 0, 0, 0])"
  by (simp add: collidingSpec_def checkCollision_def colliding_def delta_def Let_def
      getRadius_def mkKoulesStateSpace_def kouleRadius_def shipRadius_def power2_eq_square)

section \<open>Steering\<close>

lemma shipVmin_pos: "0 < shipVmin"
  by (simp add: shipVmin_def shipVmax_def shipAcceleration_def)

text \<open>
  Claim C8. When the squared magnitude of the vector from the ship's position to the
  target \<open>(x, y)\<close> exceeds the noise threshold, \<open>steer\<close> returns a positive scalar multiple
  of that vector, namely the normalized vector scaled by the magnitude \<open>r\<close> drawn from
  \<open>[shipVmin, shipVmax]\<close>, so that the control has magnitude \<open>r\<close>; otherwise it returns
  the undirected sample.
\<close>

theorem steer_directed:
  assumes "shipVmin \<le> r" and "r \<le> shipVmax"
  shows "(let dx = x - st ! (dimension - 5);
              dy = y - st ! (dimension - 4);
              nrm = sqrt (dx\<^sup>2 + dy\<^sup>2);
              c = steer dimension st x y r theta
          in if dx\<^sup>2 + dy\<^sup>2 > float_epsilon
             then c = (r / nrm * dx, r / nrm * dy) \<and> 0 < r / nrm
                  \<and> c = (r * (dx / nrm), r * (dy / nrm))
                  \<and> sqrt ((fst c)\<^sup>2 + (snd c)\<^sup>2) = r
             else c = sample r theta)"
proof -
  define dx where "dx = x - st ! (dimension - 5)"
  define dy where "dy = y - st ! (dimension - 4)"
  define nrm where "nrm = sqrt (dx\<^sup>2 + dy\<^sup>2)"
  have rpos: "0 < r"
    using assms(1) shipVmin_pos by simp
  have eps: "0 < float_epsilon"
    by (simp add: float_epsilon_def)
  have far: "steer dimension st x y r theta = (r / nrm * dx, r / nrm * dy) \<and> 0 < r / nrm
      \<and> sqrt ((r / nrm * dx)\<^sup>2 + (r / nrm * dy)\<^sup>2) = r"
    if gt: "dx\<^sup>2 + dy\<^sup>2 > float_epsilon"
  proof -
    have pos: "0 < dx\<^sup>2 + dy\<^sup>2"
      using gt eps by simp
    then have npos: "0 < nrm"
      by (simp add: nrm_def)
    have nsq: "nrm\<^sup>2 = dx\<^sup>2 + dy\<^sup>2"
      using pos by (simp add: nrm_def)
    have "(r / nrm * dx)\<^sup>2 + (r / nrm * dy)\<^sup>2 = (r / nrm)\<^sup>2 * (dx\<^sup>2 + dy\<^sup>2)"
      by (simp only: power_mult_distrib distrib_left)
    also have "\<dots> = r\<^sup>2 / nrm\<^sup>2 * nrm\<^sup>2"
      by (simp only: nsq power_divide)
    also have "\<dots> = r\<^sup>2"
      using npos by simp
    finally have "sqrt ((r / nrm * dx)\<^sup>2 + (r / nrm * dy)\<^sup>2) = r"
      using rpos by simp
    moreover have "steer dimension st x y r theta = (r / nrm * dx, r / nrm * dy)"
      using gt by (simp add: steer_def Let_def dx_def dy_def nrm_def power2_eq_square)
    ultimately show ?thesis
      using rpos npos by simp
  qed
  have near: "steer dimension st x y r theta = sample r theta"
    if "\<not> dx\<^sup>2 + dy\<^sup>2 > float_epsilon"
    using that by (simp add: steer_def Let_def dx_def dy_def power2_eq_square)
  show ?thesis
    using far near unfolding Let_def dx_def [symmetric] dy_def [symmetric] nrm_def [symmetric]
    by auto
qed

lemma sqrt_quarter: "sqrt (1 / 4) = 1 / 2"
  by (rule real_sqrt_unique) (simp_all add: power2_eq_square)

theorem steer_directed_witness:
  "shipVmin \<le> 0.5 \<and> 0.5 \<le> shipVmax
   \<and> (0.8 - 0.5)\<^sup>2 + (0.9 - 0.5)\<^sup>2 > float_epsilon
   \<and> steer 9 [0.2, 0.2, 0, 0, 0.5, 0.5, 0, 0, 0] 0.8 0.9 0.5 0 = (0.3, 0.4)"
proof -
  have a: "shipVmin \<le> 0.5" and b: "0.5 \<le> shipVmax"
    by (simp_all add: shipVmin_def shipVmax_def shipAcceleration_def)
  show ?thesis
    using a b steer_directed [OF a b, of "0.8" "[0.2, 0.2, 0, 0, 0.5, 0.5, 0, 0, 0]" 9 "0.9" 0]
    by (simp add: Let_def float_epsilon_def power2_eq_square sqrt_quarter)
qed

section \<open>Level reduction\<close>

lemma length_pushKoule:
  "length (pushKoule s j ns) = length ns + (if keepKoule s j then 4 else 0)"
  by (simp add: pushKoule_def upt_rec)

lemma length_fold_pushKoule:
  "length (fold (\<lambda>k. pushKoule s (4 * k)) [0..<m] ns) =
     length ns + 4 * length (filter (\<lambda>k. keepKoule s (4 * k)) [0..<m])"
  by (induction m) (simp_all add: length_pushKoule)

lemma length_fold_snoc:
  "length (fold (\<lambda>j ns. ns @ [f j]) js ns) = length ns + length js"
  by (induction js arbitrary: ns) simp_all

lemma length_nextStart:
  assumes "length s = 4 * n + 5"
  shows "length (nextStart s) = 4 * length (filter (\<lambda>k. keepKoule s (4 * k)) [0..<n]) + 5"
proof -
  have "(length s - 5 + 3) div 4 = n"
    using assms by simp
  then show ?thesis
    using assms by (simp add: nextStart_def Let_def length_fold_snoc length_fold_pushKoule)
qed

lemma isSatisfied_koule_at_edge:
  assumes "isSatisfied n s"
  shows "\<exists>i<n. edgeDistance s i \<le> kouleRadius"
proof -
  have n: "0 < n"
  proof (rule ccontr)
    assume "\<not> 0 < n"
    then have "distanceGoal n s = sideLength"
      by (simp add: distanceGoal_def sideLength_def)
    with assms show False
      by (simp add: isSatisfied_def threshold_def sideLength_def)
  qed
  let ?f = "\<lambda>i. edgeDistance s i - kouleRadius + threshold"
  define M where "M = Min (?f ` {0..<n})"
  have fold: "fold (distanceGoal_step s) [0..<n] sideLength = M"
    using fold_distanceGoal_step_nonempty [OF n, of s] by (simp add: M_def)
  have "distanceGoal n s = (if M < 0 then 0 else M)"
    by (simp add: distanceGoal_def Let_def fold)
  with assms have "M \<le> threshold"
    by (simp add: isSatisfied_def threshold_def split: if_splits)
  moreover have "M \<in> ?f ` {0..<n}"
    unfolding M_def using n by (intro Min_in) simp_all
  ultimately obtain i where "i < n" and "?f i \<le> threshold"
    by auto
  then show ?thesis
    by auto
qed

lemma edge_koule_dropped:
  assumes "edgeDistance s i \<le> kouleRadius"
  shows "\<not> keepKoule s (4 * i)"
  using assms
  by (auto simp add: edgeDistance_def keepKoule_def min_def max_def split: if_splits)

text \<open>
  Claim C3. The final state \<open>s\<close> of an exact solution lies in the goal region, that is, its
  goal distance is at most the goal threshold. The sub-problem derived from such a state
  by dropping every koule at or past the boundary margin has strictly fewer koules than
  the parent instance.
\<close>

theorem nextStart_fewer_koules:
  assumes "length s = 4 * n + 5" and "distanceGoal n s \<le> threshold"
  shows "numKoulesOf (nextStart s) < numKoulesOf s"
proof -
  have "isSatisfied n s"
    using assms(2) by (simp add: isSatisfied_def)
  then obtain i where i: "i < n" and "\<not> keepKoule s (4 * i)"
    using isSatisfied_koule_at_edge edge_koule_dropped by blast
  then have "i \<in> set [0..<n]" and "\<not> (\<lambda>k. keepKoule s (4 * k)) i"
    by simp_all
  then have "length (filter (\<lambda>k. keepKoule s (4 * k)) [0..<n]) < length [0..<n]"
    by (rule length_filter_less)
  then show ?thesis
    using assms(1) by (simp add: numKoulesOf_def length_nextStart [OF assms(1)])
qed

theorem nextStart_fewer_koules_witness:
  "length [0.01, 0.5, -0.3, 0, 0.6, 0.5, 0, 0, 0.5, 0.5, 0, 0, 0 :: real] = 4 * 2 + 5
   \<and> distanceGoal 2 [0.01, 0.5, -0.3, 0, 0.6, 0.5, 0, 0, 0.5, 0.5, 0, 0, 0] \<le> threshold
   \<and> nextStart [0.01, 0.5, -0.3, 0, 0.6, 0.5, 0, 0, 0.5, 0.5, 0, 0, 0]
       = [0.6, 0.5, 0, 0, 0.5, 0.5, 0, 0, 0]
   \<and> numKoulesOf (nextStart [0.01, 0.5, -0.3, 0, 0.6, 0.5, 0, 0, 0.5, 0.5, 0, 0, 0]) < 2"
proof -
  let ?s = "[0.01, 0.5, -0.3, 0, 0.6, 0.5, 0, 0, 0.5, 0.5, 0, 0, 0 :: real]"
  have len: "length ?s = 4 * 2 + 5"
    by simp
  have sat: "distanceGoal 2 ?s \<le> threshold"
    by (simp add: distanceGoal_def distanceGoal_step_def Let_def upt_rec
        sideLength_def kouleRadius_def threshold_def)
  have ns: "nextStart ?s = [0.6, 0.5, 0, 0, 0.5, 0.5, 0, 0, 0]"
    by (simp add: nextStart_def pushKoule_def keepKoule_def Let_def upt_rec
        sideLength_def kouleRadius_def)
  show ?thesis
    using len sat ns nextStart_fewer_koules [OF len sat]
    by (simp add: numKoulesOf_def)
qed

section \<open>Elastic collisions conserve momentum and kinetic energy\<close>

lemma elastic_normal_momentum:
  fixes aN bN mA mB :: real
  assumes "mA + mB \<noteq> 0"
  shows "mA * ((aN * (mA - mB) + 2 * mB * bN) / (mA + mB))
       + mB * ((bN * (mB - mA) + 2 * mA * aN) / (mA + mB)) = mA * aN + mB * bN"
proof -
  have "mA * (aN * (mA - mB) + 2 * mB * bN) + mB * (bN * (mB - mA) + 2 * mA * aN)
      = (mA * aN + mB * bN) * (mA + mB)"
    by (simp add: algebra_simps)
  then show ?thesis
    using assms by (simp add: add_divide_distrib [symmetric] nonzero_eq_divide_eq)
qed

lemma elastic_normal_energy:
  fixes aN bN mA mB :: real
  assumes "mA + mB \<noteq> 0"
  shows "mA * ((aN * (mA - mB) + 2 * mB * bN) / (mA + mB))\<^sup>2
       + mB * ((bN * (mB - mA) + 2 * mA * aN) / (mA + mB))\<^sup>2 = mA * aN\<^sup>2 + mB * bN\<^sup>2"
proof -
  have "mA * (aN * (mA - mB) + 2 * mB * bN)\<^sup>2 + mB * (bN * (mB - mA) + 2 * mA * aN)\<^sup>2
      = (mA * aN\<^sup>2 + mB * bN\<^sup>2) * (mA + mB)\<^sup>2"
    by (simp add: power2_eq_square algebra_simps)
  moreover have "(mA + mB)\<^sup>2 \<noteq> 0"
    using assms by simp
  ultimately show ?thesis
    by (simp add: power_divide add_divide_distrib [symmetric] nonzero_eq_divide_eq)
qed

lemma basis_recombine:
  fixes nx ny v0 v1 :: real
  assumes "nx\<^sup>2 + ny\<^sup>2 = 1"
  shows "nx * (nx * v0 + ny * v1) + (- ny) * ((- ny) * v0 + nx * v1) = v0"
    and "ny * (nx * v0 + ny * v1) + nx * ((- ny) * v0 + nx * v1) = v1"
proof -
  have "nx * (nx * v0 + ny * v1) + (- ny) * ((- ny) * v0 + nx * v1) = (nx\<^sup>2 + ny\<^sup>2) * v0"
    by (simp add: power2_eq_square algebra_simps)
  then show "nx * (nx * v0 + ny * v1) + (- ny) * ((- ny) * v0 + nx * v1) = v0"
    using assms by simp
  have "ny * (nx * v0 + ny * v1) + nx * ((- ny) * v0 + nx * v1) = (nx\<^sup>2 + ny\<^sup>2) * v1"
    by (simp add: power2_eq_square algebra_simps)
  then show "ny * (nx * v0 + ny * v1) + nx * ((- ny) * v0 + nx * v1) = v1"
    using assms by simp
qed

lemma basis_norm:
  fixes nx ny n t :: real
  assumes "nx\<^sup>2 + ny\<^sup>2 = 1"
  shows "(nx * n + (- ny) * t)\<^sup>2 + (ny * n + nx * t)\<^sup>2 = n\<^sup>2 + t\<^sup>2"
proof -
  have "(nx * n + (- ny) * t)\<^sup>2 + (ny * n + nx * t)\<^sup>2 = (nx\<^sup>2 + ny\<^sup>2) * (n\<^sup>2 + t\<^sup>2)"
    by (simp add: power2_eq_square algebra_simps)
  then show ?thesis
    using assms by simp
qed

text \<open>The collision response on plain numbers.\<close>

lemma elastic_collision_conserves:
  fixes nx ny va0 va1 vb0 vb1 mA mB :: real
  assumes unit: "nx\<^sup>2 + ny\<^sup>2 = 1" and mass: "mA + mB \<noteq> 0"
  defines "aN \<equiv> nx * va0 + ny * va1" and "aT \<equiv> (- ny) * va0 + nx * va1"
    and "bN \<equiv> nx * vb0 + ny * vb1" and "bT \<equiv> (- ny) * vb0 + nx * vb1"
  defines "aN' \<equiv> (aN * (mA - mB) + 2 * mB * bN) / (mA + mB)"
    and "bN' \<equiv> (bN * (mB - mA) + 2 * mA * aN) / (mA + mB)"
  defines "a0 \<equiv> nx * aN' + (- ny) * aT" and "a1 \<equiv> ny * aN' + nx * aT"
    and "b0 \<equiv> nx * bN' + (- ny) * bT" and "b1 \<equiv> ny * bN' + nx * bT"
  shows "mA * va0 + mB * vb0 = mA * a0 + mB * b0"
    and "mA * va1 + mB * vb1 = mA * a1 + mB * b1"
    and "mA * (va0\<^sup>2 + va1\<^sup>2) + mB * (vb0\<^sup>2 + vb1\<^sup>2) = mA * (a0\<^sup>2 + a1\<^sup>2) + mB * (b0\<^sup>2 + b1\<^sup>2)"
proof -
  have mom: "mA * aN' + mB * bN' = mA * aN + mB * bN"
    unfolding aN'_def bN'_def by (rule elastic_normal_momentum [OF mass])
  have en: "mA * aN'\<^sup>2 + mB * bN'\<^sup>2 = mA * aN\<^sup>2 + mB * bN\<^sup>2"
    unfolding aN'_def bN'_def by (rule elastic_normal_energy [OF mass])
  have va: "nx * aN + (- ny) * aT = va0" "ny * aN + nx * aT = va1"
    unfolding aN_def aT_def by (rule basis_recombine [OF unit])+
  have vb: "nx * bN + (- ny) * bT = vb0" "ny * bN + nx * bT = vb1"
    unfolding bN_def bT_def by (rule basis_recombine [OF unit])+
  have "mA * a0 + mB * b0 = nx * (mA * aN' + mB * bN') + (- ny) * (mA * aT + mB * bT)"
    unfolding a0_def b0_def by (simp add: algebra_simps)
  also have "\<dots> = mA * (nx * aN + (- ny) * aT) + mB * (nx * bN + (- ny) * bT)"
    unfolding mom by (simp add: algebra_simps)
  finally show "mA * va0 + mB * vb0 = mA * a0 + mB * b0"
    by (simp only: va vb)
  have "mA * a1 + mB * b1 = ny * (mA * aN' + mB * bN') + nx * (mA * aT + mB * bT)"
    unfolding a1_def b1_def by (simp add: algebra_simps)
  also have "\<dots> = mA * (ny * aN + nx * aT) + mB * (ny * bN + nx * bT)"
    unfolding mom by (simp add: algebra_simps)
  finally show "mA * va1 + mB * vb1 = mA * a1 + mB * b1"
    by (simp only: va vb)
  have na: "a0\<^sup>2 + a1\<^sup>2 = aN'\<^sup>2 + aT\<^sup>2"
    unfolding a0_def a1_def by (rule basis_norm [OF unit])
  have nb: "b0\<^sup>2 + b1\<^sup>2 = bN'\<^sup>2 + bT\<^sup>2"
    unfolding b0_def b1_def by (rule basis_norm [OF unit])
  have oa: "va0\<^sup>2 + va1\<^sup>2 = aN\<^sup>2 + aT\<^sup>2"
    using basis_norm [OF unit, of aN aT] by (simp only: va)
  have ob: "vb0\<^sup>2 + vb1\<^sup>2 = bN\<^sup>2 + bT\<^sup>2"
    using basis_norm [OF unit, of bN bT] by (simp only: vb)
  have "mA * (a0\<^sup>2 + a1\<^sup>2) + mB * (b0\<^sup>2 + b1\<^sup>2)
      = (mA * aN'\<^sup>2 + mB * bN'\<^sup>2) + (mA * aT\<^sup>2 + mB * bT\<^sup>2)"
    unfolding na nb by (simp add: algebra_simps)
  also have "\<dots> = mA * (aN\<^sup>2 + aT\<^sup>2) + mB * (bN\<^sup>2 + bT\<^sup>2)"
    unfolding en by (simp add: algebra_simps)
  finally show "mA * (va0\<^sup>2 + va1\<^sup>2) + mB * (vb0\<^sup>2 + vb1\<^sup>2)
      = mA * (a0\<^sup>2 + a1\<^sup>2) + mB * (b0\<^sup>2 + b1\<^sup>2)"
    unfolding oa ob by simp
qed

lemma getMass_mk:
  "i \<le> n \<Longrightarrow> getMass (mkKoulesStateSpace n) i = (if i = n then shipMass else kouleMass)"
proof -
  assume "i \<le> n"
  have "n < length (replicate (n + 1) kouleMass)"
    by (simp del: replicate.simps)
  then have "(replicate (n + 1) kouleMass)[n := shipMass] ! i
      = (if n = i then shipMass else replicate (n + 1) kouleMass ! i)"
    by (rule nth_list_update)
  moreover have "replicate (n + 1) kouleMass ! i = kouleMass"
    using \<open>i \<le> n\<close> by (intro nth_replicate) simp
  ultimately show ?thesis
    by (auto simp add: getMass_def mkKoulesStateSpace_def simp del: replicate.simps)
qed

lemma getMass_mk_pos: "i \<le> n \<Longrightarrow> 0 < getMass (mkKoulesStateSpace n) i"
  by (simp add: getMass_mk shipMass_def kouleMass_def)

lemma colliding_apart:
  assumes "colliding sp i j q"
  shows "0 < (q ! (4 * i) - q ! (4 * j))\<^sup>2 + (q ! (4 * i + 1) - q ! (4 * j + 1))\<^sup>2"
proof (rule ccontr)
  assume "\<not> ?thesis"
  then have "(q ! (4 * i) - q ! (4 * j))\<^sup>2 + (q ! (4 * i + 1) - q ! (4 * j + 1))\<^sup>2 = 0"
    by (simp add: not_less sum_power2_le_zero_iff)
  then have "q ! (4 * i) - q ! (4 * j) = 0" and "q ! (4 * i + 1) - q ! (4 * j + 1) = 0"
    by simp_all
  with assms show False
    by (simp add: colliding_def Let_def)
qed

lemma newVelocities_conserves:
  assumes hit: "colliding sp i j q" and mass: "getMass sp i + getMass sp j \<noteq> 0"
  shows "(case newVelocities sp i j q of (a0, a1, b0, b1) \<Rightarrow>
      getMass sp i * q ! (4 * i + 2) + getMass sp j * q ! (4 * j + 2)
        = getMass sp i * a0 + getMass sp j * b0
    \<and> getMass sp i * q ! (4 * i + 3) + getMass sp j * q ! (4 * j + 3)
        = getMass sp i * a1 + getMass sp j * b1
    \<and> getMass sp i * ((q ! (4 * i + 2))\<^sup>2 + (q ! (4 * i + 3))\<^sup>2)
        + getMass sp j * ((q ! (4 * j + 2))\<^sup>2 + (q ! (4 * j + 3))\<^sup>2)
        = getMass sp i * (a0\<^sup>2 + a1\<^sup>2) + getMass sp j * (b0\<^sup>2 + b1\<^sup>2))"
proof -
  define dx where "dx = q ! (4 * i) - q ! (4 * j)"
  define dy where "dy = q ! (4 * i + 1) - q ! (4 * j + 1)"
  define dist where "dist = sqrt (dx * dx + dy * dy)"
  have pos: "0 < dx\<^sup>2 + dy\<^sup>2"
    using colliding_apart [OF hit] by (simp add: dx_def dy_def)
  then have dpos: "0 < dist"
    by (simp add: dist_def power2_eq_square)
  have dsq: "dist\<^sup>2 = dx\<^sup>2 + dy\<^sup>2"
    using pos by (simp add: dist_def power2_eq_square)
  have "(dx / dist)\<^sup>2 + (dy / dist)\<^sup>2 = (dx\<^sup>2 + dy\<^sup>2) / dist\<^sup>2"
    by (simp add: power_divide add_divide_distrib)
  also have "\<dots> = dist\<^sup>2 / dist\<^sup>2"
    by (simp only: dsq)
  also have "\<dots> = 1"
    using dpos by simp
  finally have unit: "(dx / dist)\<^sup>2 + (dy / dist)\<^sup>2 = 1" .
  note c = elastic_collision_conserves [where nx = "dx / dist" and ny = "dy / dist"
      and mA = "getMass sp i" and mB = "getMass sp j"
      and ?va0.0 = "q ! (4 * i + 2)" and ?va1.0 = "q ! (4 * i + 3)"
      and ?vb0.0 = "q ! (4 * j + 2)" and ?vb1.0 = "q ! (4 * j + 3)", OF unit mass]
  show ?thesis
    unfolding newVelocities_def Let_def prod.case
      dx_def [symmetric] dy_def [symmetric] dist_def [symmetric]
    using c by blast
qed

lemma fold_preserves:
  assumes "\<And>x s. x \<in> set xs \<Longrightarrow> g (f x s) = g s"
  shows "g (fold f xs s) = g s"
  using assms by (induction xs arbitrary: s) simp_all

lemma length_checkCollision [simp]: "length (snd (checkCollision sp i j dt q)) = length q"
  by (simp add: checkCollision_def Let_def split_beta)

lemma checkCollision_nth_other:
  assumes "k < 4 * i \<or> 4 * i + 3 < k" and "k < 4 * j \<or> 4 * j + 3 < k"
  shows "snd (checkCollision sp i j dt q) ! k = q ! k"
  using assms by (auto simp add: checkCollision_def Let_def split_beta)

lemma checkCollision_velocities:
  assumes "i \<noteq> j" and "4 * i + 3 < length q" and "4 * j + 3 < length q"
    and "colliding sp i j q"
  shows "(case newVelocities sp i j q of (a0, a1, b0, b1) \<Rightarrow>
      snd (checkCollision sp i j dt q) ! (4 * i + 2) = a0
    \<and> snd (checkCollision sp i j dt q) ! (4 * i + 3) = a1
    \<and> snd (checkCollision sp i j dt q) ! (4 * j + 2) = b0
    \<and> snd (checkCollision sp i j dt q) ! (4 * j + 3) = b1)"
proof -
  have "4 * i + 2 \<noteq> 4 * j" "4 * i + 2 \<noteq> 4 * j + 1" "4 * i + 2 \<noteq> 4 * j + 3"
    "4 * i + 3 \<noteq> 4 * j" "4 * i + 3 \<noteq> 4 * j + 1" "4 * i + 3 \<noteq> 4 * j + 2"
    "4 * i + 2 \<noteq> 4 * j + 2" "4 * i + 3 \<noteq> 4 * j + 3"
    using assms(1) by presburger+
  then show ?thesis
    using assms(2-4) by (simp add: checkCollision_def Let_def split_beta)
qed

text \<open>
  Claim C2. For every pair of bodies \<open>i < j\<close> that \<open>checkCollision\<close> reports as colliding,
  the velocities it writes back conserve the momentum of the pair (componentwise) and its
  kinetic energy, exactly over the reals; in particular the three assertions of the
  collision branch, which allow an absolute error of \<open>0.000001\<close>, hold.
\<close>

theorem checkCollision_conserves:
  assumes "i < j" and "j \<le> numKoules" and "length q = 4 * numKoules + 5"
    and "fst (checkCollision (mkKoulesStateSpace numKoules) i j dt q)"
  shows "(let sp = mkKoulesStateSpace numKoules;
              q' = snd (checkCollision sp i j dt q);
              m1 = getMass sp i; m2 = getMass sp j;
              v1x = q ! (4 * i + 2); v1y = q ! (4 * i + 3);
              v2x = q ! (4 * j + 2); v2y = q ! (4 * j + 3);
              v1x' = q' ! (4 * i + 2); v1y' = q' ! (4 * i + 3);
              v2x' = q' ! (4 * j + 2); v2y' = q' ! (4 * j + 3)
          in m1 * v1x + m2 * v2x = m1 * v1x' + m2 * v2x'
             \<and> m1 * v1y + m2 * v2y = m1 * v1y' + m2 * v2y'
             \<and> m1 * (v1x\<^sup>2 + v1y\<^sup>2) + m2 * (v2x\<^sup>2 + v2y\<^sup>2)
                 = m1 * (v1x'\<^sup>2 + v1y'\<^sup>2) + m2 * (v2x'\<^sup>2 + v2y'\<^sup>2)
             \<and> collisionAsserts sp i j q)"
proof -
  define sp where "sp = mkKoulesStateSpace numKoules"
  have hit: "colliding sp i j q"
    using assms(4) by (simp add: checkCollision_def sp_def split: if_splits)
  have "0 < getMass sp i" and "0 < getMass sp j"
    using assms(1,2) by (simp_all add: sp_def getMass_mk_pos)
  then have mass: "getMass sp i + getMass sp j \<noteq> 0"
    by simp
  have rng: "i \<noteq> j" "4 * i + 3 < length q" "4 * j + 3 < length q"
    using assms(1-3) by simp_all
  obtain a0 a1 b0 b1 where nv: "newVelocities sp i j q = (a0, a1, b0, b1)"
    by (cases "newVelocities sp i j q") auto
  have vel: "snd (checkCollision sp i j dt q) ! (4 * i + 2) = a0"
    "snd (checkCollision sp i j dt q) ! (4 * i + 3) = a1"
    "snd (checkCollision sp i j dt q) ! (4 * j + 2) = b0"
    "snd (checkCollision sp i j dt q) ! (4 * j + 3) = b1"
    using checkCollision_velocities [OF rng hit, of dt] by (simp_all add: nv)
  have cons: "getMass sp i * q ! (4 * i + 2) + getMass sp j * q ! (4 * j + 2)
        = getMass sp i * a0 + getMass sp j * b0"
    "getMass sp i * q ! (4 * i + 3) + getMass sp j * q ! (4 * j + 3)
        = getMass sp i * a1 + getMass sp j * b1"
    "getMass sp i * ((q ! (4 * i + 2))\<^sup>2 + (q ! (4 * i + 3))\<^sup>2)
        + getMass sp j * ((q ! (4 * j + 2))\<^sup>2 + (q ! (4 * j + 3))\<^sup>2)
        = getMass sp i * (a0\<^sup>2 + a1\<^sup>2) + getMass sp j * (b0\<^sup>2 + b1\<^sup>2)"
    using newVelocities_conserves [OF hit mass] by (simp_all add: nv)
  have m1: "getMass sp i * (q ! (4 * i + 2) - a0) + getMass sp j * (q ! (4 * j + 2) - b0) = 0"
    using cons(1) by (simp add: algebra_simps)
  have m2: "getMass sp i * (q ! (4 * i + 3) - a1) + getMass sp j * (q ! (4 * j + 3) - b1) = 0"
    using cons(2) by (simp add: algebra_simps)
  have en: "getMass sp i * (q ! (4 * i + 2) * q ! (4 * i + 2) + q ! (4 * i + 3) * q ! (4 * i + 3)
                - a0 * a0 - a1 * a1)
          + getMass sp j * (q ! (4 * j + 2) * q ! (4 * j + 2) + q ! (4 * j + 3) * q ! (4 * j + 3)
                - b0 * b0 - b1 * b1) = 0"
    using cons(3) by (simp add: algebra_simps power2_eq_square)
  have asserts: "collisionAsserts sp i j q"
    unfolding collisionAsserts_def Let_def nv prod.case m1 m2 en by simp
  show ?thesis
    unfolding Let_def sp_def [symmetric] vel using cons asserts by simp
qed

lemma getRadius_mk:
  "i \<le> n \<Longrightarrow> getRadius (mkKoulesStateSpace n) i = (if i = n then shipRadius else kouleRadius)"
proof -
  assume "i \<le> n"
  have "n < length (replicate (n + 1) kouleRadius)"
    by (simp del: replicate.simps)
  then have "(replicate (n + 1) kouleRadius)[n := shipRadius] ! i
      = (if n = i then shipRadius else replicate (n + 1) kouleRadius ! i)"
    by (rule nth_list_update)
  moreover have "replicate (n + 1) kouleRadius ! i = kouleRadius"
    using \<open>i \<le> n\<close> by (intro nth_replicate) simp
  ultimately show ?thesis
    by (auto simp add: getRadius_def mkKoulesStateSpace_def simp del: replicate.simps)
qed

lemma sqrt_9_10000: "sqrt (9 / 10000) = 3 / 100"
  by (rule real_sqrt_unique) (simp_all add: power2_eq_square)

lemma collision_example:
  "checkCollision (mkKoulesStateSpace 1) 0 1 0.01 [0.53, 0.5, - 0.1, 0, 0.5, 0.5, 0, 0, 0]
     = (True, [0.5302, 0.5, 0.02, 0, 0.4992, 0.5, - 0.08, 0, 0])"
  by (simp add: checkCollision_def colliding_def delta_def newVelocities_def Let_def getRadius_mk
      getMass_mk kouleRadius_def shipRadius_def kouleMass_def shipMass_def sqrt_9_10000)

theorem checkCollision_conserves_witness:
  "(0::nat) < 1 \<and> (1::nat) \<le> 1
   \<and> length [0.53, 0.5, - 0.1, 0, 0.5, 0.5, 0, 0, 0 :: real] = 4 * 1 + 5
   \<and> fst (checkCollision (mkKoulesStateSpace 1) 0 1 0.01 [0.53, 0.5, - 0.1, 0, 0.5, 0.5, 0, 0, 0])
   \<and> snd (checkCollision (mkKoulesStateSpace 1) 0 1 0.01 [0.53, 0.5, - 0.1, 0, 0.5, 0.5, 0, 0, 0])
       = [0.5302, 0.5, 0.02, 0, 0.4992, 0.5, - 0.08, 0, 0]
   \<and> kouleMass * (- 0.1) + shipMass * 0 = kouleMass * 0.02 + shipMass * (- 0.08)
   \<and> kouleMass * ((- 0.1)\<^sup>2 + 0\<^sup>2) + shipMass * (0\<^sup>2 + 0\<^sup>2)
       = kouleMass * (0.02\<^sup>2 + 0\<^sup>2) + shipMass * ((- 0.08)\<^sup>2 + 0\<^sup>2)
   \<and> collisionAsserts (mkKoulesStateSpace 1) 0 1 [0.53, 0.5, - 0.1, 0, 0.5, 0.5, 0, 0, 0]"
proof -
  let ?q = "[0.53, 0.5, - 0.1, 0, 0.5, 0.5, 0, 0, 0 :: real]"
  have a: "(0::nat) < 1" and b: "(1::nat) \<le> 1" and c: "length ?q = 4 * 1 + 5"
    by simp_all
  have d: "fst (checkCollision (mkKoulesStateSpace 1) 0 1 0.01 ?q)"
    by (simp only: collision_example fst_conv)
  show ?thesis
    using checkCollision_conserves [OF a b c d] unfolding Let_def collision_example
    by (simp add: getMass_mk)
qed

section \<open>The scratch vector of derivatives\<close>

lemma length_ode_koule [simp]: "length (ode_koule q i qdot) = length qdot"
  by (simp add: ode_koule_def)

lemma length_ode_koules [simp]:
  "length (fold (\<lambda>k. ode_koule q (4 * k)) ks qdot) = length qdot"
  by (induction ks arbitrary: qdot) simp_all

lemma ode_koule_nth_other:
  "k < i \<or> i + 3 < k \<Longrightarrow> ode_koule q i qdot ! k = qdot ! k"
  by (auto simp add: ode_koule_def)

lemma ode_koule_nth_written:
  assumes "i \<le> k" and "k \<le> i + 3" and "k < length qdot" and "length qdot = length qdot'"
  shows "ode_koule q i qdot ! k = ode_koule q i qdot' ! k"
proof -
  consider "k = i" | "k = i + 1" | "k = i + 2" | "k = i + 3"
    using assms(1,2) by linarith
  then show ?thesis
    using assms(3,4) by cases (simp_all add: ode_koule_def)
qed

lemma ode_koules_overwrite:
  assumes "length qdot = length qdot'" and "k < 4 * m" and "k < length qdot"
  shows "fold (\<lambda>k. ode_koule q (4 * k)) [0..<m] qdot ! k
       = fold (\<lambda>k. ode_koule q (4 * k)) [0..<m] qdot' ! k"
  using assms(2)
proof (induction m)
  case 0
  then show ?case by simp
next
  case (Suc m)
  let ?F = "\<lambda>qd. fold (\<lambda>k. ode_koule q (4 * k)) [0..<m] qd"
  show ?case
  proof (cases "k < 4 * m")
    case True
    then show ?thesis
      using Suc.IH by (simp add: ode_koule_nth_other)
  next
    case False
    then have "4 * m \<le> k" and "k \<le> 4 * m + 3"
      using Suc.prems by simp_all
    then have "ode_koule q (4 * m) (?F qdot) ! k = ode_koule q (4 * m) (?F qdot') ! k"
      using assms(1,3) by (intro ode_koule_nth_written) simp_all
    then show ?thesis
      by simp
  qed
qed

text \<open>
  \<open>ode\<close> assigns every entry of \<open>qdot\<close>: its result does not depend on what the scratch
  vector held before.
\<close>

lemma ode_overwrites:
  assumes "length qdot = 4 * n + 5" and "length qdot' = 4 * n + 5"
  shows "ode n q u qdot = ode n q u qdot'"
proof (rule nth_equalityI)
  show "length (ode n q u qdot) = length (ode n q u qdot')"
    using assms by (simp add: ode_def Let_def)
next
  fix k
  assume "k < length (ode n q u qdot)"
  then have k: "k < 4 * n + 5"
    using assms by (simp add: ode_def Let_def)
  show "ode n q u qdot ! k = ode n q u qdot' ! k"
  proof (cases "k < 4 * n")
    case True
    then show ?thesis
      using assms ode_koules_overwrite [of qdot qdot' k n q]
      by (simp add: ode_def Let_def)
  next
    case False
    then consider "k = 4 * n" | "k = 4 * n + 1" | "k = 4 * n + 2" | "k = 4 * n + 3"
      | "k = 4 * n + 4"
      using k by linarith
    then show ?thesis
      using assms by cases (simp_all add: ode_def Let_def)
  qed
qed

section \<open>Frame conditions of the integration sub-step\<close>

lemma collidePair_nth_other:
  assumes "i < j" and "4 * j + 3 < k"
  shows "fst (collidePair sp dt i j qh) ! k = fst qh ! k"
  using assms checkCollision_nth_other [of k i j sp dt "fst qh"]
  by (simp add: collidePair_def split_beta)

lemma length_collidePair [simp]:
  "length (fst (collidePair sp dt i j qh)) = length (fst qh)"
  by (simp add: collidePair_def split_beta)

lemma updateCollisions_heading:
  "fst (updateCollisions sp n dt q) ! (4 * n + 4) = q ! (4 * n + 4)"
proof -
  have inner: "fst (fold (collidePair sp dt i) [i + 1..<n + 1] qh) ! (4 * n + 4)
      = fst qh ! (4 * n + 4)" for i qh
    by (rule fold_preserves [where g = "\<lambda>qh. fst qh ! (4 * n + 4)"])
      (auto intro!: collidePair_nth_other)
  have "fst (fold (\<lambda>i. fold (collidePair sp dt i) [i + 1..<n + 1]) [0..<n]
      (q, replicate (n + 1) False)) ! (4 * n + 4) = fst (q, replicate (n + 1) False) ! (4 * n + 4)"
    by (rule fold_preserves [where g = "\<lambda>qh. fst qh ! (4 * n + 4)"]) (simp only: inner)
  then show ?thesis
    by (simp add: updateCollisions_def)
qed

lemma length_updateCollisions [simp]:
  "length (fst (updateCollisions sp n dt q)) = length q"
proof -
  have inner: "length (fst (fold (collidePair sp dt i) js qh)) = length (fst qh)" for i js qh
    by (rule fold_preserves [where g = "\<lambda>qh. length (fst qh)"]) simp
  have "length (fst (fold (\<lambda>i. fold (collidePair sp dt i) [i + 1..<n + 1]) [0..<n]
      (q, replicate (n + 1) False))) = length (fst (q, replicate (n + 1) False))"
    by (rule fold_preserves [where g = "\<lambda>qh. length (fst qh)"]) (simp only: inner)
  then show ?thesis
    by (simp add: updateCollisions_def)
qed

lemma eulerObject_nth_other:
  assumes "k < base \<or> base + len \<le> k"
  shows "eulerObject qdot dt base len q ! k = q ! k"
  unfolding eulerObject_def
  using assms by (intro fold_preserves [where g = "\<lambda>q. q ! k"]) auto

lemma length_eulerObject [simp]: "length (eulerObject qdot dt base len q) = length q"
  unfolding eulerObject_def
  by (rule fold_preserves [where g = length]) simp

lemma eulerKoules_heading:
  "fold (\<lambda>i q. if \<not> hc ! i then eulerObject qdot dt (4 * i) 4 q else q) [0..<n] q ! (4 * n + 4)
     = q ! (4 * n + 4)"
  by (rule fold_preserves [where g = "\<lambda>q. q ! (4 * n + 4)"])
    (simp add: eulerObject_nth_other)

lemma length_eulerKoules [simp]:
  "length (fold (\<lambda>i q. if \<not> hc ! i then eulerObject qdot dt (4 * i) 4 q else q) is q)
     = length q"
  by (rule fold_preserves [where g = length]) simp

lemma length_update [simp]: "length (update sp n dt qdot q) = length q"
  by (simp add: update_def Let_def split_beta)

lemma length_integrate [simp]: "length (integrate sp n u dt k q) = length q"
  by (induction k arbitrary: q) simp_all

text \<open>
  Claim C10. In a sub-step of \<open>update\<close> in which the ship is flagged as having collided,
  the heading coordinate is left unchanged: the collision loop never writes it, and the
  flagged ship is excluded from the Euler update, so the torque entry of \<open>qdot\<close> has no
  effect on the heading.
\<close>

theorem update_heading_unchanged_on_collision:
  assumes "snd (updateCollisions sp numKoules dt q) ! numKoules"
  shows "update sp numKoules dt qdot q ! (4 * numKoules + 4) = q ! (4 * numKoules + 4)"
  using assms
  by (simp add: update_def Let_def split_beta eulerKoules_heading updateCollisions_heading)

section \<open>Heading normalization\<close>

lemma fmod_bounds:
  fixes x y :: real
  assumes "0 < y"
  shows "- y < fmod x y" and "fmod x y < y"
proof -
  have xy: "y * (x / y) = x"
    using assms by simp
  have "x / y - 1 < of_int \<lfloor>x / y\<rfloor>"
    by linarith
  then have "y * (x / y - 1) < y * of_int \<lfloor>x / y\<rfloor>"
    using assms by (intro mult_strict_left_mono) simp_all
  then have fl1: "x - y * of_int \<lfloor>x / y\<rfloor> < y"
    using xy by (simp add: right_diff_distrib)
  have "of_int \<lfloor>x / y\<rfloor> \<le> x / y"
    by linarith
  then have "y * of_int \<lfloor>x / y\<rfloor> \<le> y * (x / y)"
    using assms by (intro mult_left_mono) simp_all
  then have fl2: "0 \<le> x - y * of_int \<lfloor>x / y\<rfloor>"
    using xy by simp
  have "of_int \<lceil>x / y\<rceil> < x / y + 1"
    by linarith
  then have "y * of_int \<lceil>x / y\<rceil> < y * (x / y + 1)"
    using assms by (intro mult_strict_left_mono) simp_all
  then have ce1: "- y < x - y * of_int \<lceil>x / y\<rceil>"
    using xy by (simp add: distrib_left)
  have "x / y \<le> of_int \<lceil>x / y\<rceil>"
    by linarith
  then have "y * (x / y) \<le> y * of_int \<lceil>x / y\<rceil>"
    using assms by (intro mult_left_mono) simp_all
  then have ce2: "x - y * of_int \<lceil>x / y\<rceil> \<le> 0"
    using xy by simp
  show "- y < fmod x y"
    using fl2 ce1 assms unfolding fmod_def by (cases "0 \<le> x / y") simp_all
  show "fmod x y < y"
    using fl1 ce2 assms unfolding fmod_def by (cases "0 \<le> x / y") simp_all
qed

lemma enforceBounds_range: "- pi < enforceBounds theta \<and> enforceBounds theta \<le> pi"
  using fmod_bounds [of "2 * pi" theta]
  by (auto simp add: enforceBounds_def Let_def)

text \<open>
  Claim C4. For every well-formed start state, every control and every positive
  duration, the heading component of the state that \<open>propagate\<close> returns lies in
  \<open>(-\<pi>, \<pi>]\<close>.
\<close>

theorem propagate_heading_normalized:
  assumes "length start = 4 * numKoules + 5" and "0 < duration"
  shows "- pi < propagate sp numKoules start cval duration ! (4 * numKoules + 4)
       \<and> propagate sp numKoules start cval duration ! (4 * numKoules + 4) \<le> pi"
  using assms(1) enforceBounds_range
  by (simp add: propagate_def Let_def)

theorem propagate_heading_normalized_witness:
  "length [0.2, 0.5, 0, 0, 0.5, 0.5, 0, 0, 3 :: real] = 4 * 1 + 5 \<and> (0::real) < 0.05
   \<and> - pi < propagate (mkKoulesStateSpace 1) 1 [0.2, 0.5, 0, 0, 0.5, 0.5, 0, 0, 3] (0, 0.3) 0.05 ! 8
   \<and> propagate (mkKoulesStateSpace 1) 1 [0.2, 0.5, 0, 0, 0.5, 0.5, 0, 0, 3] (0, 0.3) 0.05 ! 8 \<le> pi"
proof -
  have a: "length [0.2, 0.5, 0, 0, 0.5, 0.5, 0, 0, 3 :: real] = 4 * 1 + 5"
    by simp
  have b: "(0::real) < 0.05"
    by simp
  show ?thesis
    using propagate_heading_normalized [OF a b, of "mkKoulesStateSpace 1" "(0, 0.3)"]
    by simp
qed

section \<open>The heading during a colliding sub-step: an instance\<close>

lemma collision_flags_example:
  "updateCollisions (mkKoulesStateSpace 1) 1 0.01 [0.53, 0.5, - 0.1, 0, 0.5, 0.5, 0, 0, 0]
     = ([0.5302, 0.5, 0.02, 0, 0.4992, 0.5, - 0.08, 0, 0], [True, True])"
proof -
  have c: "checkCollision (mkKoulesStateSpace (Suc 0)) 0 (Suc 0) (1 / 100)
      [53 / 100, 1 / 2, - (1 / 10), 0, 1 / 2, 1 / 2, 0, 0, 0]
    = (True, [2651 / 5000, 1 / 2, 1 / 50, 0, 312 / 625, 1 / 2, - (2 / 25), 0, 0])"
    using collision_example by simp
  show ?thesis
    by (simp add: updateCollisions_def collidePair_def c)
qed

theorem update_heading_unchanged_on_collision_witness:
  "snd (updateCollisions (mkKoulesStateSpace 1) 1 0.01
          [0.53, 0.5, - 0.1, 0, 0.5, 0.5, 0, 0, 0]) ! 1
   \<and> update (mkKoulesStateSpace 1) 1 0.01 [0, 0, 0, 0, 0, 0, 0, 0, pi]
         [0.53, 0.5, - 0.1, 0, 0.5, 0.5, 0, 0, 0] ! (4 * 1 + 4) = 0"
proof -
  have a: "snd (updateCollisions (mkKoulesStateSpace 1) 1 0.01
      [0.53, 0.5, - 0.1, 0, 0.5, 0.5, 0, 0, 0]) ! 1"
    by (simp only: collision_flags_example snd_conv) simp
  show ?thesis
    using a update_heading_unchanged_on_collision [OF a, of "[0, 0, 0, 0, 0, 0, 0, 0, pi]"]
    by simp
qed

section \<open>Evaluating the one-koule instance\<close>

lemmas koules_consts = sideLength_def kouleRadius_def shipRadius_def kouleMass_def shipMass_def
  lambda_c_def h_def integrationStepSize_def propagationStepSize_def shipDelta_def shipEps_def
  shipAcceleration_def shipRotVel_def threshold_def

lemma replicate_9: "replicate 9 (0::real) = [0, 0, 0, 0, 0, 0, 0, 0, 0]"
  by (simp add: numeral_eq_Suc)

lemma integrate_numeral:
  "integrate sp n u dt (numeral k) q =
     integrate sp n u dt (pred_numeral k)
       (update sp n dt (ode n q u (replicate (4 * n + 5) 0)) q)"
  by (simp add: numeral_eq_Suc)

lemma enforceBounds_0: "enforceBounds 0 = 0"
  by (simp add: enforceBounds_def fmod_def not_le)

lemmas propagate_eval = propagate_def integrate_numeral bangBang_def update_def
  updateCollisions_def collidePair_def checkCollision_def colliding_def delta_def eulerObject_def
  ode_def
  ode_koule_def enforceBounds_0 Let_def koules_consts upt_rec replicate_9 getRadius_mk

lemmas example_env = exampleEnv_def koulesEnv_def

lemma example_dimension: "getDimension exampleEnv = 9"
  by (simp add: example_env)

lemma example_settings:
  "propagateMax exampleEnv = False" "getPropagationStepSize exampleEnv = 1 / 20"
  by (simp_all add: example_env propagationStepSize_def)

lemma miss_steer:
  "steer 9 missSource (missDest ! 4) (missDest ! 5) (magnitude missDraws) (angle missDraws)
     = missControl"
  by (simp add: steer_def missSource_def missDest_def missDraws_def missControl_def Let_def
      float_epsilon_def real_sqrt_divide)

lemma miss_step1: "statePropagator exampleEnv missSource missControl (1 / 20) = missS1"
  by (simp add: example_env missSource_def missControl_def missS1_def propagate_eval)

lemma miss_step2: "statePropagator exampleEnv missS1 missControl (1 / 20) = missS2"
  by (simp add: example_env missS1_def missControl_def missS2_def propagate_eval)

lemma miss_step3: "statePropagator exampleEnv missS2 missControl (1 / 20) = missS3"
  by (simp add: example_env missS2_def missControl_def missS3_def propagate_eval)

lemmas goal_eval = example_env isSatisfied_def distanceGoal_def distanceGoal_step_def Let_def
  koules_consts upt_rec

lemma miss_goal:
  "\<not> goalIsSatisfied exampleEnv missS1" "goalIsSatisfied exampleEnv missS2"
  "\<not> goalIsSatisfied exampleEnv missS3"
  by (simp_all add: goal_eval missS1_def missS2_def missS3_def)

lemmas valid_eval = example_env isStateValid_def satisfiesBounds_def mkKoulesStateSpace_def
  kouleBoundsLow_def kouleBoundsHigh_def koules_consts upt_rec

lemma miss_valid:
  "siIsValid exampleEnv missS1" "siIsValid exampleEnv missS2" "siIsValid exampleEnv missS3"
  by (simp_all add: valid_eval missS1_def missS2_def missS3_def)

section \<open>Directed propagation: the goal test inside the loop\<close>

lemma miss_loop:
  "sampleToLoop exampleEnv missControl 3 (Suc 0) (Suc 0) (Suc 0) (Suc (Suc 0))
       [missSource, missS1, []]
     = (3, [missSource, missS3, missS2])"
proof -
  have l3: "sampleToLoop exampleEnv missControl 3 (Suc 0) (Suc (Suc (Suc 0))) (Suc 0) (Suc (Suc 0))
        [missSource, missS3, missS2]
      = (3, [missSource, missS3, missS2])"
    by (subst sampleToLoop.simps) (simp add: afterLoop_def)
  have l2: "sampleToLoop exampleEnv missControl 3 (Suc 0) (Suc (Suc 0)) (Suc (Suc 0)) (Suc 0)
        [missSource, missS1, missS2]
      = sampleToLoop exampleEnv missControl 3 (Suc 0) (Suc (Suc (Suc 0))) (Suc 0) (Suc (Suc 0))
        [missSource, missS3, missS2]"
    by (subst sampleToLoop.simps)
      (simp add: example_settings miss_step3 miss_goal miss_valid Let_def)
  have l1: "sampleToLoop exampleEnv missControl 3 (Suc 0) (Suc 0) (Suc 0) (Suc (Suc 0))
        [missSource, missS1, []]
      = sampleToLoop exampleEnv missControl 3 (Suc 0) (Suc (Suc 0)) (Suc (Suc 0)) (Suc 0)
        [missSource, missS1, missS2]"
    by (subst sampleToLoop.simps)
      (simp add: example_settings miss_step2 miss_goal miss_valid Let_def)
  show ?thesis
    by (simp only: l1 l2 l3)
qed

lemma miss_sampleTo:
  "sampleTo exampleEnv missDraws [missSource, missDest] 0 1
     = (3, missControl, [missSource, missS3])"
proof -
  have steps: "stepCount missDraws = 3"
    by (simp add: missDraws_def)
  show ?thesis
    by (simp add: sampleTo_def Let_def example_dimension example_settings steps miss_steer
        miss_step1 miss_goal miss_valid miss_loop)
qed

lemma miss_stateAfter:
  "stateAfter exampleEnv missControl missSource 1 = missS1"
  "stateAfter exampleEnv missControl missSource 2 = missS2"
  "stateAfter exampleEnv missControl missSource 3 = missS3"
  by (simp_all add: numeral_eq_Suc example_settings miss_step1 miss_step2 miss_step3)

lemma sampleToLoop_lower_bound:
  "i \<le> steps \<Longrightarrow> i \<le> fst (sampleToLoop e c steps dest i temp1 temp2 mem)"
proof (induction e c steps dest i temp1 temp2 mem rule: sampleToLoop.induct)
  case (1 e control steps dest i temp1 temp2 mem)
  show ?case
  proof (cases "i < steps")
    case False
    then show ?thesis
      using "1.prems" by (subst sampleToLoop.simps) (simp add: afterLoop_def)
  next
    case True
    define mem1 where "mem1 = mem[temp2 :=
      statePropagator e (mem ! temp1) control (getPropagationStepSize e)]"
    have ih: "i + 1 \<le> fst (sampleToLoop e control steps dest (i + 1) temp2 temp1 mem1)"
      if "\<not> goalIsSatisfied e (mem1 ! dest)" and "siIsValid e (mem1 ! temp2)"
      using "1.IH" [OF True mem1_def that] True by simp
    show ?thesis
      using True ih
      by (subst sampleToLoop.simps) (auto simp add: Let_def afterLoop_def mem1_def [symmetric])
  qed
qed

text \<open>
  Whatever the propagator, the goal and the validity checker are: when the goal first
  holds at the state produced by step 2, the budget is at least 3 and the state after
  step 3 is valid or in the goal, \<open>sampleTo\<close> goes on to step 3 and reports at least 3
  steps.
\<close>

lemma sampleTo_skips_goal_at_second_step:
  fixes e :: sampler_env and d :: draws and mem :: store and source dest :: nat
  defines "c \<equiv> steer (getDimension e) (mem ! source)
      (mem ! dest ! (getDimension e - 5)) (mem ! dest ! (getDimension e - 4))
      (magnitude d) (angle d)"
  defines "steps \<equiv> (if propagateMax e then getMaxControlDuration e else stepCount d)"
  assumes dest: "dest < length mem" and budget: "3 \<le> steps"
    and s1: "\<not> goalIsSatisfied e (stateAfter e c (mem ! source) 1)"
      "siIsValid e (stateAfter e c (mem ! source) 1)"
    and s2: "goalIsSatisfied e (stateAfter e c (mem ! source) 2)"
      "siIsValid e (stateAfter e c (mem ! source) 2)"
    and s3: "goalIsSatisfied e (stateAfter e c (mem ! source) 3)
      \<or> siIsValid e (stateAfter e c (mem ! source) 3)"
  shows "3 \<le> fst (sampleTo e d mem source dest)"
proof -
  define st where "st = getPropagationStepSize e"
  define t1 where "t1 = statePropagator e (mem ! source) c st"
  define t2 where "t2 = statePropagator e t1 c st"
  define t3 where "t3 = statePropagator e t2 c st"
  have sa: "stateAfter e c (mem ! source) 1 = t1" "stateAfter e c (mem ! source) 2 = t2"
    "stateAfter e c (mem ! source) 3 = t3"
    by (simp_all add: numeral_eq_Suc t1_def t2_def t3_def st_def)
  define m1 where "m1 = mem[dest := t1] @ [[]]"
  define m2 where "m2 = m1[length mem := t2]"
  define m3 where "m3 = m2[dest := t3]"
  have m1: "m1 ! dest = t1" "length m1 = Suc (length mem)"
    using dest by (simp_all add: m1_def nth_append)
  have m2: "m2 ! dest = t1" "m2 ! length mem = t2"
    using dest m1 by (simp_all add: m2_def)
  have m3: "m3 ! dest = t3"
    using dest m1 by (simp add: m3_def m2_def)
  have g: "\<not> goalIsSatisfied e t1" "siIsValid e t1" "goalIsSatisfied e t2" "siIsValid e t2"
    using s1 s2 unfolding sa by simp_all
  have third: "3 \<le> fst (sampleToLoop e c steps dest 2 (length mem) dest m2)"
  proof (cases "goalIsSatisfied e t3")
    case True
    then show ?thesis
      using budget m2 m3
      by (subst sampleToLoop.simps) (simp add: Let_def st_def [symmetric] t3_def [symmetric]
          m3_def [symmetric] copyState_def)
  next
    case False
    then have v: "siIsValid e t3"
      using s3 by (simp add: sa)
    have "3 \<le> fst (sampleToLoop e c steps dest 3 dest (length mem) m3)"
      using budget by (rule sampleToLoop_lower_bound)
    then show ?thesis
      using budget m2 m3 False v
      by (subst sampleToLoop.simps) (simp add: Let_def st_def [symmetric] t3_def [symmetric]
          m3_def [symmetric])
  qed
  have second: "sampleToLoop e c steps dest 1 dest (length mem) m1
      = sampleToLoop e c steps dest 2 (length mem) dest m2"
    using budget m1 m2 g
    by (subst sampleToLoop.simps) (simp add: Let_def st_def [symmetric] t2_def [symmetric]
        m2_def [symmetric] numeral_2_eq_2 [symmetric])
  have "fst (sampleTo e d mem source dest)
      = fst (sampleToLoop e c steps dest 1 dest (length mem) m1)"
    using dest g
    by (simp add: sampleTo_def Let_def c_def [symmetric] steps_def [symmetric]
        st_def [symmetric] t1_def [symmetric] m1_def [symmetric] split_beta)
  then show ?thesis
    using third by (simp only: second)
qed

text \<open>
  Claim C1 does not hold of the code. In the first call the goal predicate is false after
  step 1 and first becomes true at the state produced by step 2, with a budget of 3 steps
  and all states valid. The claim requires \<open>sampleTo\<close> to return 2 and to leave the state
  after step 2 in \<open>dest\<close>. Inside the loop the goal is tested on \<open>dest\<close>, which in the first
  iteration still holds the state after step 1, and not on the state \<open>temp2\<close> that the step
  has just produced; so the loop goes on to step 3, and \<open>sampleTo\<close> returns 3 with the
  state after step 3, which does not satisfy the goal.
\<close>

theorem sampleTo_misses_goal_at_second_step:
  "\<not> goalIsSatisfied exampleEnv (stateAfter exampleEnv missControl missSource 1)
   \<and> goalIsSatisfied exampleEnv (stateAfter exampleEnv missControl missSource 2)
   \<and> siIsValid exampleEnv (stateAfter exampleEnv missControl missSource 1)
   \<and> siIsValid exampleEnv (stateAfter exampleEnv missControl missSource 2)
   \<and> sampleTo exampleEnv missDraws [missSource, missDest] 0 1
       = (3, missControl, [missSource, stateAfter exampleEnv missControl missSource 3])
   \<and> \<not> goalIsSatisfied exampleEnv (stateAfter exampleEnv missControl missSource 3)"
  by (simp only: miss_stateAfter miss_goal miss_valid miss_sampleTo simp_thms)

section \<open>Directed propagation: an invalid first step\<close>

text \<open>
  Claim C9, as amended. When \<open>source\<close> and \<open>dest\<close> are distinct state objects and the state
  produced by the first propagation step neither satisfies the goal nor is valid,
  \<open>sampleTo\<close> returns 0 and \<open>dest\<close> holds the source state, which is itself unchanged.
\<close>

theorem sampleTo_first_step_invalid:
  fixes e :: sampler_env and d :: draws and mem :: store and source dest :: nat
  assumes "source < length mem" and "dest < length mem" and "source \<noteq> dest"
  defines "control \<equiv> steer (getDimension e) (mem ! source)
      (mem ! dest ! (getDimension e - 5)) (mem ! dest ! (getDimension e - 4))
      (magnitude d) (angle d)"
  defines "s1 \<equiv> statePropagator e (mem ! source) control (getPropagationStepSize e)"
  assumes "\<not> goalIsSatisfied e s1" and "\<not> siIsValid e s1"
  shows "sampleTo e d mem source dest = (0, control, mem[dest := mem ! source])
       \<and> snd (snd (sampleTo e d mem source dest)) ! dest = mem ! source
       \<and> snd (snd (sampleTo e d mem source dest)) ! source = mem ! source"
proof -
  have "sampleTo e d mem source dest = (0, control, mem[dest := mem ! source])"
    using assms(2,3,6,7) unfolding s1_def control_def
    by (simp add: sampleTo_def Let_def copyState_def)
  then show ?thesis
    using assms(1-3) by simp
qed

lemma sqrt_1_10000: "sqrt (1 / 10000) = 1 / 100"
  by (rule real_sqrt_unique) (simp_all add: power2_eq_square)

lemma edge_steer:
  "steer 9 edgeSource (edgeDest ! 4) (edgeDest ! 5) (magnitude edgeDraws) (angle edgeDraws)
     = edgeControl"
  by (simp add: steer_def edgeSource_def edgeDest_def edgeDraws_def edgeControl_def Let_def
      float_epsilon_def sqrt_1_10000)

lemma edge_steer_alias:
  "steer 9 edgeSource (edgeSource ! 4) (edgeSource ! 5) (magnitude edgeDraws) (angle edgeDraws)
     = edgeControl"
  by (simp add: steer_def sample_def edgeSource_def edgeDraws_def edgeControl_def Let_def
      float_epsilon_def)

lemma edge_step1: "statePropagator exampleEnv edgeSource edgeControl (1 / 20) = edgeS1"
  by (simp add: example_env edgeSource_def edgeControl_def edgeS1_def propagate_eval)

lemma edge_goal: "\<not> goalIsSatisfied exampleEnv edgeS1"
  by (simp add: goal_eval edgeS1_def)

lemma edge_valid: "\<not> siIsValid exampleEnv edgeS1"
  by (simp add: valid_eval edgeS1_def)

theorem sampleTo_first_step_invalid_witness:
  "(0::nat) < length [edgeSource, edgeDest] \<and> (1::nat) < length [edgeSource, edgeDest]
   \<and> (0::nat) \<noteq> 1
   \<and> \<not> goalIsSatisfied exampleEnv edgeS1 \<and> \<not> siIsValid exampleEnv edgeS1
   \<and> sampleTo exampleEnv edgeDraws [edgeSource, edgeDest] 0 1
       = (0, edgeControl, [edgeSource, edgeSource])"
proof -
  let ?mem = "[edgeSource, edgeDest]"
  have a: "(0::nat) < length ?mem" and b: "(1::nat) < length ?mem" and c: "(0::nat) \<noteq> 1"
    by simp_all
  have ctl: "steer (getDimension exampleEnv) (?mem ! 0)
      (?mem ! 1 ! (getDimension exampleEnv - 5)) (?mem ! 1 ! (getDimension exampleEnv - 4))
      (magnitude edgeDraws) (angle edgeDraws) = edgeControl"
    by (simp add: example_dimension edge_steer)
  have s1: "statePropagator exampleEnv (?mem ! 0) edgeControl (getPropagationStepSize exampleEnv)
      = edgeS1"
    by (simp add: example_settings edge_step1)
  have g: "\<not> goalIsSatisfied exampleEnv (statePropagator exampleEnv (?mem ! 0)
      (steer (getDimension exampleEnv) (?mem ! 0)
        (?mem ! 1 ! (getDimension exampleEnv - 5)) (?mem ! 1 ! (getDimension exampleEnv - 4))
        (magnitude edgeDraws) (angle edgeDraws)) (getPropagationStepSize exampleEnv))"
    by (simp only: ctl s1 edge_goal simp_thms)
  have v: "\<not> siIsValid exampleEnv (statePropagator exampleEnv (?mem ! 0)
      (steer (getDimension exampleEnv) (?mem ! 0)
        (?mem ! 1 ! (getDimension exampleEnv - 5)) (?mem ! 1 ! (getDimension exampleEnv - 4))
        (magnitude edgeDraws) (angle edgeDraws)) (getPropagationStepSize exampleEnv))"
    by (simp only: ctl s1 edge_valid simp_thms)
  have "sampleTo exampleEnv edgeDraws ?mem 0 1 = (0, edgeControl, ?mem[1 := ?mem ! 0])"
    using sampleTo_first_step_invalid [OF a b c g v] by (simp only: ctl)
  then show ?thesis
    using edge_goal edge_valid by simp
qed

text \<open>
  Claim C9 as stated fails when \<open>source\<close> and \<open>dest\<close> are the same state object: the
  first step has overwritten it, the copy back is skipped by the test \<open>dest != source\<close>,
  and the state left behind is the invalid one, not the state the call started from.
\<close>

theorem sampleTo_aliased_counterexample:
  "statePropagator exampleEnv edgeSource edgeControl (getPropagationStepSize exampleEnv) = edgeS1
   \<and> \<not> goalIsSatisfied exampleEnv edgeS1 \<and> \<not> siIsValid exampleEnv edgeS1
   \<and> sampleTo exampleEnv edgeDraws [edgeSource] 0 0 = (0, edgeControl, [edgeS1])
   \<and> edgeS1 \<noteq> edgeSource"
proof -
  have "sampleTo exampleEnv edgeDraws [edgeSource] 0 0 = (0, edgeControl, [edgeS1])"
    by (simp add: sampleTo_def Let_def example_dimension example_settings edge_steer_alias
        edge_step1 edge_goal edge_valid)
  moreover have "edgeS1 \<noteq> edgeSource"
    by (simp add: edgeS1_def edgeSource_def)
  ultimately show ?thesis
    by (simp add: example_settings edge_step1 edge_goal edge_valid)
qed

end
